theory Spec2Isabelle
  imports Main
begin

section \<open>Strings of the program\<close>

text \<open>
  A string of the program is a sequence of UTF-16 code units, which is what its
  \<^verbatim>\<open>length\<close>, \<^verbatim>\<open>substring\<close>, \<^verbatim>\<open>padStart\<close> and \<^verbatim>\<open>startsWith\<close> count. A code unit is
  a natural number; \<open>lit\<close> turns an ASCII literal of the source into its code units.
  The three non-ASCII glyphs of the templates are given by their code points.
\<close>

type_synonym jsstring = "nat list"

definition lit :: "string \<Rightarrow> jsstring" where
  "lit s = map of_char s"

definition glyph_arrow :: jsstring where
  "glyph_arrow = [8594]"

definition glyph_branch :: jsstring where
  "glyph_branch = [9500]"

definition glyph_bullet :: jsstring where
  "glyph_bullet = [8226]"

text \<open>Truthiness of a string: only the empty string is falsy.\<close>

definition truthy :: "jsstring \<Rightarrow> bool" where
  "truthy s = (s \<noteq> [])"

text \<open>Truthiness of an optional string field: \<^verbatim>\<open>undefined\<close> and \<^verbatim>\<open>''\<close> are falsy.\<close>

fun truthy_opt :: "jsstring option \<Rightarrow> bool" where
  "truthy_opt None = False"
| "truthy_opt (Some s) = truthy s"

text \<open>\<^verbatim>\<open>\d\<close>: the code units of \<^verbatim>\<open>0\<close> to \<^verbatim>\<open>9\<close>.\<close>

definition is_digit :: "nat \<Rightarrow> bool" where
  "is_digit c = (48 \<le> c \<and> c \<le> 57)"

text \<open>\<^verbatim>\<open>/^\d+$/.test(s)\<close>: one digit or more, and nothing else.\<close>

definition all_digits :: "jsstring \<Rightarrow> bool" where
  "all_digits s = (s \<noteq> [] \<and> list_all is_digit s)"

text \<open>\<^verbatim>\<open>s.startsWith(p)\<close>.\<close>

definition startsWith :: "jsstring \<Rightarrow> jsstring \<Rightarrow> bool" where
  "startsWith s p = (take (length p) s = p)"

text \<open>\<^verbatim>\<open>s.padStart(n, '0')\<close>: zeros in front up to length \<open>n\<close>, nothing cut off.\<close>

definition padStart0 :: "nat \<Rightarrow> jsstring \<Rightarrow> jsstring" where
  "padStart0 n s = replicate (n - length s) 48 @ s"

text \<open>\<^verbatim>\<open>s.includes(p)\<close>: \<open>p\<close> occurs in \<open>s\<close> as a contiguous run.\<close>

fun str_includes :: "jsstring \<Rightarrow> jsstring \<Rightarrow> bool" where
  "str_includes [] p = (p = [])"
| "str_includes (c # s) p = (take (length p) (c # s) = p \<or> str_includes s p)"

text \<open>
  \<^verbatim>\<open>encodeURIComponent(s)\<close> throws a \<^verbatim>\<open>URIError\<close> exactly when \<open>s\<close> holds a surrogate
  code unit that is not part of a pair: a leading surrogate that no trailing one
  follows, or a trailing surrogate that no leading one precedes. The message of the
  error is \<^verbatim>\<open>URI malformed\<close>.
\<close>

definition is_leading_surrogate :: "nat \<Rightarrow> bool" where
  "is_leading_surrogate c = (55296 \<le> c \<and> c \<le> 56319)"

definition is_trailing_surrogate :: "nat \<Rightarrow> bool" where
  "is_trailing_surrogate c = (56320 \<le> c \<and> c \<le> 57343)"

fun uri_malformed :: "jsstring \<Rightarrow> bool" where
  "uri_malformed [] = False"
| "uri_malformed [c] = (is_leading_surrogate c \<or> is_trailing_surrogate c)"
| "uri_malformed (c # d # s) =
     (if is_leading_surrogate c
      then (if is_trailing_surrogate d then uri_malformed s else True)
      else if is_trailing_surrogate c then True
      else uri_malformed (d # s))"

definition uri_error_message :: jsstring where
  "uri_error_message = lit ''URI malformed''"

text \<open>Decimal rendering of a non-negative integer, as a template literal prints it.\<close>

function nat_to_string :: "nat \<Rightarrow> jsstring" where
  "nat_to_string n =
     (if n < 10 then [48 + n] else nat_to_string (n div 10) @ [48 + n mod 10])"
  by pat_completeness auto
termination
  by (relation "measure (\<lambda>n. n)") auto

declare nat_to_string.simps [simp del]

section \<open>Identifier normalizer (api-client.ts)\<close>

text \<open>
  \<^verbatim>\<open>formatHPOId\<close>: an id that starts with \<^verbatim>\<open>HP:\<close> is returned as it is; an id made of
  digits only is padded to seven digits and prefixed; anything else is returned as it is.
\<close>

definition formatHPOId :: "jsstring \<Rightarrow> jsstring" where
  "formatHPOId ident =
     (if startsWith ident (lit ''HP:'') then ident
      else if all_digits ident then lit ''HP:'' @ padStart0 7 ident
      else ident)"

text \<open>\<^verbatim>\<open>/^HP:\d{7}$/\<close> and \<^verbatim>\<open>/^\d{7}$/\<close>, and \<^verbatim>\<open>isValidHPOId\<close> built from them.\<close>

definition is_canonical :: "jsstring \<Rightarrow> bool" where
  "is_canonical s =
     (length s = 10 \<and> take 3 s = lit ''HP:'' \<and> list_all is_digit (drop 3 s))"

definition is_seven_digits :: "jsstring \<Rightarrow> bool" where
  "is_seven_digits s = (length s = 7 \<and> list_all is_digit s)"

definition isValidHPOId :: "jsstring \<Rightarrow> bool" where
  "isValidHPOId s = (is_canonical s \<or> is_seven_digits s)"

section \<open>Data model (types/hpo.ts)\<close>

text \<open>
  An optional field of an interface is an \<open>option\<close>: \<open>None\<close> is \<^verbatim>\<open>undefined\<close>. The
  field names carry a prefix, since \<^verbatim>\<open>id\<close> and \<^verbatim>\<open>definition\<close> are taken in HOL.
\<close>

record SimpleOntologyTerm =
  s_id :: jsstring
  s_name :: jsstring

record OntologyTerm =
  t_id :: jsstring
  t_name :: jsstring
  t_definition :: "jsstring option"
  t_comment :: "jsstring option"
  t_synonyms :: "jsstring list option"
  t_xrefs :: "jsstring list option"
  t_alternativeIds :: "jsstring list option"
  t_isObsolete :: "bool option"
  t_replacement :: "jsstring option"
  t_subset :: "jsstring list option"
  t_children :: "SimpleOntologyTerm list option"
  t_parents :: "SimpleOntologyTerm list option"
  t_ancestors :: "SimpleOntologyTerm list option"
  t_descendants :: "SimpleOntologyTerm list option"

record HierarchyParams =
  hp_id :: jsstring
  hp_max :: "nat option"
  hp_offset :: "nat option"

record 'a ApiResponse =
  data :: "'a option"
  error :: "jsstring option"
  status :: nat

section \<open>The remote ontology service\<close>

text \<open>
  The service is a parameter of the model. A request either fails in one of the three
  ways the response interceptor of the client tells apart, or answers with a body and
  a status. For the term endpoint the body is \<^verbatim>\<open>response.data\<close> (\<open>None\<close> when it is
  empty); for a hierarchy endpoint it is the list that
  \<^verbatim>\<open>response.data.terms || response.data || []\<close> evaluates to. A request is identified
  by its endpoint, the formatted id in its path and the two query parameters it carries.
\<close>

datatype HttpFailure =
  ErrorResponse nat jsstring
| NoResponse
| RequestError jsstring

datatype Endpoint = TermEP | AncestorsEP | ParentsEP | ChildrenEP | DescendantsEP

datatype Request = Request Endpoint jsstring "nat option" "nat option"

record Remote =
  term_endpoint :: "jsstring \<Rightarrow> HttpFailure + (OntologyTerm option \<times> nat)"
  hierarchy_endpoint ::
    "Endpoint \<Rightarrow> jsstring \<Rightarrow> nat option \<Rightarrow> nat option
      \<Rightarrow> HttpFailure + (SimpleOntologyTerm list \<times> nat)"

section \<open>API client (api-client.ts)\<close>

text \<open>The response interceptor: the message of the \<^verbatim>\<open>Error\<close> it throws.\<close>

fun interceptor_message :: "HttpFailure \<Rightarrow> jsstring" where
  "interceptor_message (ErrorResponse st msg) =
     lit ''HPO API Error ('' @ nat_to_string st @ lit ''): '' @ msg"
| "interceptor_message NoResponse =
     lit ''HPO API is not responding. Please check your internet connection.''"
| "interceptor_message (RequestError msg) = lit ''Request error: '' @ msg"

text \<open>
  \<^verbatim>\<open>getTerm\<close>: the whole body is inside \<^verbatim>\<open>try\<close>, and the \<^verbatim>\<open>catch\<close> turns a thrown error
  into an \<^verbatim>\<open>error\<close> field with status 500, so the function never throws. Two things
  can throw: \<^verbatim>\<open>encodeURIComponent\<close>, while the path of the request is built, in which case
  no request is sent; and the request itself. The second component is the list of
  requests sent.
\<close>

definition getTerm :: "Remote \<Rightarrow> jsstring \<Rightarrow> OntologyTerm ApiResponse \<times> Request list" where
  "getTerm r ident =
     (let formattedId = formatHPOId ident in
      if uri_malformed formattedId
      then (\<lparr>data = None, error = Some uri_error_message, status = 500\<rparr>, [])
      else
        (case term_endpoint r formattedId of
           Inr (d, st) \<Rightarrow> \<lparr>data = d, error = None, status = st\<rparr>
         | Inl failure \<Rightarrow>
             \<lparr>data = None, error = Some (interceptor_message failure), status = 500\<rparr>,
         [Request TermEP formattedId None None]))"

text \<open>\<^verbatim>\<open>if (params.max) searchParams.append(...)\<close>: a missing or zero parameter is left out.\<close>

fun query_param :: "nat option \<Rightarrow> nat option" where
  "query_param None = None"
| "query_param (Some n) = (if n = 0 then None else Some n)"

text \<open>
  \<^verbatim>\<open>getAncestors\<close>, \<^verbatim>\<open>getParents\<close>, \<^verbatim>\<open>getChildren\<close> and \<^verbatim>\<open>getDescendants\<close> are the same
  function up to the path of the request; they fail like \<^verbatim>\<open>getTerm\<close>.
\<close>

definition hierarchy_call ::
  "Endpoint \<Rightarrow> Remote \<Rightarrow> HierarchyParams \<Rightarrow> SimpleOntologyTerm list ApiResponse \<times> Request list" where
  "hierarchy_call ep r params =
     (let formattedId = formatHPOId (hp_id params);
          mx = query_param (hp_max params);
          off = query_param (hp_offset params) in
      if uri_malformed formattedId
      then (\<lparr>data = None, error = Some uri_error_message, status = 500\<rparr>, [])
      else
        (case hierarchy_endpoint r ep formattedId mx off of
           Inr (ts, st) \<Rightarrow> \<lparr>data = Some ts, error = None, status = st\<rparr>
         | Inl failure \<Rightarrow>
             \<lparr>data = None, error = Some (interceptor_message failure), status = 500\<rparr>,
         [Request ep formattedId mx off]))"

definition getAncestors ::
  "Remote \<Rightarrow> HierarchyParams \<Rightarrow> SimpleOntologyTerm list ApiResponse \<times> Request list" where
  "getAncestors = hierarchy_call AncestorsEP"

definition getParents ::
  "Remote \<Rightarrow> HierarchyParams \<Rightarrow> SimpleOntologyTerm list ApiResponse \<times> Request list" where
  "getParents = hierarchy_call ParentsEP"

definition getChildren ::
  "Remote \<Rightarrow> HierarchyParams \<Rightarrow> SimpleOntologyTerm list ApiResponse \<times> Request list" where
  "getChildren = hierarchy_call ChildrenEP"

definition getDescendants ::
  "Remote \<Rightarrow> HierarchyParams \<Rightarrow> SimpleOntologyTerm list ApiResponse \<times> Request list" where
  "getDescendants = hierarchy_call DescendantsEP"

section \<open>Tool handlers (hpo-handlers.ts)\<close>

text \<open>
  A handler returns \<^verbatim>\<open>{ content: [{ type: "text", text }], isError? }\<close>, or throws an
  \<^verbatim>\<open>Error\<close> whose message is the \<open>Inl\<close> of the result. An argument that is missing or
  not of the expected type is \<open>None\<close>. Beside the result stands the list of requests
  the handler sent, in the order the calls were made.
\<close>

record ToolResult =
  content_text :: jsstring
  isError :: bool

type_synonym handler_result = "(jsstring + ToolResult) \<times> Request list"

definition nl :: jsstring where
  "nl = [10]"

text \<open>A template literal prints \<^verbatim>\<open>undefined\<close> for a missing value.\<close>

fun render_opt :: "jsstring option \<Rightarrow> jsstring" where
  "render_opt None = lit ''undefined''"
| "render_opt (Some s) = s"

text \<open>\<^verbatim>\<open>a || b\<close> on optional strings, and \<^verbatim>\<open>result.data || []\<close>.\<close>

definition or_opt :: "jsstring option \<Rightarrow> jsstring option \<Rightarrow> jsstring option" where
  "or_opt a b = (if truthy_opt a then a else b)"

fun data_or_empty :: "'a list ApiResponse \<Rightarrow> 'a list" where
  "data_or_empty res = (case data res of None \<Rightarrow> [] | Some xs \<Rightarrow> xs)"

text \<open>\<^verbatim>\<open>xs.join(sep)\<close> and \<^verbatim>\<open>s.repeat(n)\<close>.\<close>

fun join :: "jsstring \<Rightarrow> jsstring list \<Rightarrow> jsstring" where
  "join sep [] = []"
| "join sep [x] = x"
| "join sep (x # y # ys) = x @ sep @ join sep (y # ys)"

definition repeat :: "jsstring \<Rightarrow> nat \<Rightarrow> jsstring" where
  "repeat s n = concat (replicate n s)"

subsection \<open>getHPOTermPath\<close>

definition id_required :: jsstring where
  "id_required = lit ''HPO ID parameter is required and must be a string''"

text \<open>Line 469: the ancestors reversed, then the term itself.\<close>

definition pathTerms :: "SimpleOntologyTerm list \<Rightarrow> OntologyTerm \<Rightarrow> SimpleOntologyTerm list" where
  "pathTerms ancestors trm = rev ancestors @ [\<lparr>s_id = t_id trm, s_name = t_name trm\<rparr>]"

text \<open>Lines 470 to 473: one line per element, indented by its index.\<close>

definition formattedPath :: "SimpleOntologyTerm list \<Rightarrow> jsstring" where
  "formattedPath pts =
     join nl (map (\<lambda>(index, t).
        repeat (lit ''  '') index
        @ (if index = length pts - 1 then glyph_arrow else glyph_branch)
        @ lit '' '' @ s_id t @ lit '': '' @ s_name t) (enumerate 0 pts))"

definition path_text :: "jsstring \<Rightarrow> SimpleOntologyTerm list \<Rightarrow> jsstring" where
  "path_text ident pts =
     lit ''Hierarchical path to '' @ ident @ lit '':'' @ nl @ nl @ formattedPath pts
     @ nl @ nl @ lit ''Path depth: '' @ nat_to_string (length pts - 1) @ lit '' levels''"

definition getHPOTermPath :: "Remote \<Rightarrow> jsstring option \<Rightarrow> handler_result" where
  "getHPOTermPath r arg_id =
     (case arg_id of
        None \<Rightarrow> (Inl id_required, [])
      | Some ident \<Rightarrow>
          if \<not> truthy ident then (Inl id_required, [])
          else
            (case getTerm r ident of (termResult, log1) \<Rightarrow>
               if truthy_opt (error termResult)
               then (Inr \<lparr>content_text = lit ''Error retrieving term '' @ ident @ lit '': ''
                            @ render_opt (error termResult),
                          isError = True\<rparr>, log1)
               else
                 (case getAncestors r \<lparr>hp_id = ident, hp_max = Some 200, hp_offset = Some 0\<rparr> of
                    (ancestorsResult, log2) \<Rightarrow>
                      if truthy_opt (error ancestorsResult)
                      then (Inr \<lparr>content_text = lit ''Error retrieving ancestors for '' @ ident
                                   @ lit '': '' @ render_opt (error ancestorsResult),
                                 isError = True\<rparr>, log1 @ log2)
                      else
                        (let ancestors = data_or_empty ancestorsResult in
                         case data termResult of
                           None \<Rightarrow>
                             (Inr \<lparr>content_text = lit ''Term '' @ ident @ lit '' not found'',
                                   isError = False\<rparr>, log1 @ log2)
                         | Some trm \<Rightarrow>
                             (Inr \<lparr>content_text = path_text ident (pathTerms ancestors trm),
                                   isError = False\<rparr>, log1 @ log2)))))"

subsection \<open>compareHPOTerms\<close>

definition terms_required :: jsstring where
  "terms_required = lit ''Both term1 and term2 parameters are required and must be strings''"

text \<open>
  Lines 526 and 527: the ids of the first closure, as a set, and the entries of the second
  closure whose id is in it.
\<close>

definition commonAncestors ::
  "SimpleOntologyTerm list \<Rightarrow> SimpleOntologyTerm list \<Rightarrow> SimpleOntologyTerm list" where
  "commonAncestors ancestors1 ancestors2 =
     (let ancestors1Ids = set (map s_id ancestors1) in
      filter (\<lambda>a. s_id a \<in> ancestors1Ids) ancestors2)"

text \<open>
  Lines 530 to 537: the variable \<^verbatim>\<open>relationship\<close> takes one of four texts. The four
  assignments are named, and \<open>relationship_text\<close> gives the text of each.
\<close>

datatype Relationship =
  NoDirectRelationship
| FirstIsDescendantOfSecond
| SecondIsDescendantOfFirst
| RelatedThroughCommonAncestors

fun relationship_text :: "jsstring \<Rightarrow> jsstring \<Rightarrow> Relationship \<Rightarrow> jsstring" where
  "relationship_text term1 term2 NoDirectRelationship = lit ''No direct relationship''"
| "relationship_text term1 term2 FirstIsDescendantOfSecond =
     term1 @ lit '' is a descendant of '' @ term2"
| "relationship_text term1 term2 SecondIsDescendantOfFirst =
     term2 @ lit '' is a descendant of '' @ term1"
| "relationship_text term1 term2 RelatedThroughCommonAncestors =
     lit ''Related through common ancestors''"

definition relationship ::
  "jsstring \<Rightarrow> jsstring \<Rightarrow> SimpleOntologyTerm list \<Rightarrow> SimpleOntologyTerm list \<Rightarrow> Relationship" where
  "relationship term1 term2 ancestors1 ancestors2 =
     (if list_ex (\<lambda>a. s_id a = term2) ancestors1 then FirstIsDescendantOfSecond
      else if list_ex (\<lambda>a. s_id a = term1) ancestors2 then SecondIsDescendantOfFirst
      else if length (commonAncestors ancestors1 ancestors2) > 0 then RelatedThroughCommonAncestors
      else NoDirectRelationship)"

text \<open>Lines 544 to 554: at most ten common ancestors are listed.\<close>

definition common_section :: "SimpleOntologyTerm list \<Rightarrow> jsstring" where
  "common_section common =
     (if length common > 0
      then lit ''**Common Ancestors ('' @ nat_to_string (length common) @ lit ''):**'' @ nl
           @ concat (map (\<lambda>ancestor. lit ''  '' @ glyph_bullet @ lit '' '' @ s_id ancestor
                            @ lit '': '' @ s_name ancestor @ nl) (take 10 common))
           @ (if length common > 10
              then lit ''  ... and '' @ nat_to_string (length common - 10) @ lit '' more'' @ nl
              else [])
      else lit ''**Common Ancestors:** None found'' @ nl)"

definition compare_text ::
  "jsstring \<Rightarrow> jsstring \<Rightarrow> jsstring \<Rightarrow> jsstring \<Rightarrow> Relationship
    \<Rightarrow> SimpleOntologyTerm list \<Rightarrow> jsstring" where
  "compare_text term1 term2 name1 name2 rel common =
     lit ''**Comparison of HPO Terms:**'' @ nl @ nl
     @ lit ''**Term 1:** '' @ term1 @ lit '': '' @ name1 @ nl
     @ lit ''**Term 2:** '' @ term2 @ lit '': '' @ name2 @ nl @ nl
     @ lit ''**Relationship:** '' @ relationship_text term1 term2 rel @ nl @ nl
     @ common_section common"

definition compareHPOTerms :: "Remote \<Rightarrow> jsstring option \<Rightarrow> jsstring option \<Rightarrow> handler_result" where
  "compareHPOTerms r arg_term1 arg_term2 =
     (case (arg_term1, arg_term2) of
        (Some term1, Some term2) \<Rightarrow>
          if \<not> truthy term1 then (Inl terms_required, [])
          else if \<not> truthy term2 then (Inl terms_required, [])
          else
            (case (getTerm r term1, getTerm r term2) of
               ((term1Result, log1), (term2Result, log2)) \<Rightarrow>
                 if truthy_opt (error term1Result) \<or> truthy_opt (error term2Result)
                 then (Inr \<lparr>content_text = lit ''Error retrieving terms: ''
                              @ render_opt (or_opt (error term1Result) (error term2Result)),
                            isError = True\<rparr>, log1 @ log2)
                 else
                   (case (data term1Result, data term2Result) of
                      (Some t1, Some t2) \<Rightarrow>
                        (case (getAncestors r \<lparr>hp_id = term1, hp_max = Some 200, hp_offset = Some 0\<rparr>,
                               getAncestors r \<lparr>hp_id = term2, hp_max = Some 200, hp_offset = Some 0\<rparr>) of
                           ((ancestors1Result, log3), (ancestors2Result, log4)) \<Rightarrow>
                             (let ancestors1 = data_or_empty ancestors1Result;
                                  ancestors2 = data_or_empty ancestors2Result in
                              (Inr \<lparr>content_text =
                                      compare_text term1 term2 (t_name t1) (t_name t2)
                                        (relationship term1 term2 ancestors1 ancestors2)
                                        (commonAncestors ancestors1 ancestors2),
                                    isError = False\<rparr>,
                               log1 @ log2 @ log3 @ log4)))
                    | _ \<Rightarrow>
                        (Inr \<lparr>content_text = lit ''One or both terms not found: '' @ term1
                                @ lit '', '' @ term2,
                              isError = False\<rparr>, log1 @ log2)))
      | _ \<Rightarrow> (Inl terms_required, []))"

subsection \<open>getHPOTermStats\<close>

text \<open>\<^verbatim>\<open>xs?.length || 0\<close>, and \<^verbatim>\<open>s.substring(0, n)\<close> followed by dots when \<open>s\<close> is longer.\<close>

fun opt_length :: "'a list option \<Rightarrow> nat" where
  "opt_length None = 0"
| "opt_length (Some xs) = length xs"

definition shortened :: "nat \<Rightarrow> jsstring \<Rightarrow> jsstring" where
  "shortened n s = take n s @ (if length s > n then lit ''...'' else [])"

text \<open>Lines 606 to 628, as a function of the term and the four lists.\<close>

definition stats_text ::
  "jsstring \<Rightarrow> OntologyTerm \<Rightarrow> SimpleOntologyTerm list \<Rightarrow> SimpleOntologyTerm list
    \<Rightarrow> SimpleOntologyTerm list \<Rightarrow> SimpleOntologyTerm list \<Rightarrow> jsstring" where
  "stats_text ident trm ancestors descendants parents children =
     lit ''**Statistics for '' @ ident @ lit '':**'' @ nl @ nl
     @ lit ''**Name:** '' @ t_name trm @ nl @ nl
     @ (if truthy_opt (t_definition trm)
        then lit ''**Definition:** '' @ shortened 200 (render_opt (t_definition trm)) @ nl @ nl
        else [])
     @ lit ''**Hierarchy Statistics:**'' @ nl
     @ lit ''  '' @ glyph_bullet @ lit '' Ancestors: '' @ nat_to_string (length ancestors) @ nl
     @ lit ''  '' @ glyph_bullet @ lit '' Direct Parents: '' @ nat_to_string (length parents) @ nl
     @ lit ''  '' @ glyph_bullet @ lit '' Direct Children: '' @ nat_to_string (length children) @ nl
     @ lit ''  '' @ glyph_bullet @ lit '' All Descendants: '' @ nat_to_string (length descendants) @ nl
     @ lit ''  '' @ glyph_bullet @ lit '' Depth from Root: '' @ nat_to_string (length ancestors) @ nl @ nl
     @ lit ''**Term Properties:**'' @ nl
     @ lit ''  '' @ glyph_bullet @ lit '' Synonyms: '' @ nat_to_string (opt_length (t_synonyms trm)) @ nl
     @ lit ''  '' @ glyph_bullet @ lit '' Cross-references: '' @ nat_to_string (opt_length (t_xrefs trm)) @ nl
     @ lit ''  '' @ glyph_bullet @ lit '' Alternative IDs: ''
       @ nat_to_string (opt_length (t_alternativeIds trm)) @ nl
     @ lit ''  '' @ glyph_bullet @ lit '' Obsolete: ''
       @ (if t_isObsolete trm = Some True then lit ''Yes'' else lit ''No'') @ nl
     @ (if truthy_opt (t_comment trm)
        then nl @ lit ''**Comment:** '' @ shortened 150 (render_opt (t_comment trm))
        else [])"

definition getHPOTermStats :: "Remote \<Rightarrow> jsstring option \<Rightarrow> handler_result" where
  "getHPOTermStats r arg_id =
     (case arg_id of
        None \<Rightarrow> (Inl id_required, [])
      | Some ident \<Rightarrow>
          if \<not> truthy ident then (Inl id_required, [])
          else
            (case (getTerm r ident,
                   getAncestors r \<lparr>hp_id = ident, hp_max = Some 1000, hp_offset = Some 0\<rparr>,
                   getDescendants r \<lparr>hp_id = ident, hp_max = Some 1000, hp_offset = Some 0\<rparr>,
                   getParents r \<lparr>hp_id = ident, hp_max = Some 100, hp_offset = Some 0\<rparr>,
                   getChildren r \<lparr>hp_id = ident, hp_max = Some 100, hp_offset = Some 0\<rparr>) of
               ((termResult, log1), (ancestorsResult, log2), (descendantsResult, log3),
                (parentsResult, log4), (childrenResult, log5)) \<Rightarrow>
                 (let reqs = log1 @ log2 @ log3 @ log4 @ log5 in
                  if truthy_opt (error termResult)
                  then (Inr \<lparr>content_text = lit ''Error retrieving term '' @ ident @ lit '': ''
                               @ render_opt (error termResult),
                             isError = True\<rparr>, reqs)
                  else
                    (case data termResult of
                       None \<Rightarrow>
                         (Inr \<lparr>content_text = lit ''Term '' @ ident @ lit '' not found'',
                               isError = False\<rparr>, reqs)
                     | Some trm \<Rightarrow>
                         (let ancestors = data_or_empty ancestorsResult;
                              descendants = data_or_empty descendantsResult;
                              parents = data_or_empty parentsResult;
                              children = data_or_empty childrenResult in
                          (Inr \<lparr>content_text =
                                  stats_text ident trm ancestors descendants parents children,
                                isError = False\<rparr>, reqs))))))"

subsection \<open>batchGetHPOTerms\<close>

record BatchOutcome =
  b_id :: jsstring
  success :: bool
  b_data :: "OntologyTerm option"
  b_error :: "jsstring option"

definition ids_required :: jsstring where
  "ids_required = lit ''IDs parameter is required and must be an array of strings''"

text \<open>
  Lines 665 to 680, the function mapped over the ids. \<^verbatim>\<open>getTerm\<close> catches every error
  itself, so the \<^verbatim>\<open>catch\<close> of this function is never entered.
\<close>

definition batch_fetch :: "Remote \<Rightarrow> jsstring \<Rightarrow> BatchOutcome \<times> Request list" where
  "batch_fetch r ident =
     (case getTerm r ident of (result, reqs) \<Rightarrow>
        (\<lparr>b_id = ident, success = (\<not> truthy_opt (error result)),
          b_data = data result, b_error = error result\<rparr>, reqs))"

definition batch_results :: "Remote \<Rightarrow> jsstring list \<Rightarrow> BatchOutcome list" where
  "batch_results r ids = map (\<lambda>ident. fst (batch_fetch r ident)) ids"

definition batch_requests :: "Remote \<Rightarrow> jsstring list \<Rightarrow> Request list" where
  "batch_requests r ids = concat (map (\<lambda>ident. snd (batch_fetch r ident)) ids)"

definition successful :: "BatchOutcome list \<Rightarrow> BatchOutcome list" where
  "successful results = filter (\<lambda>res. success res) results"

definition failed :: "BatchOutcome list \<Rightarrow> BatchOutcome list" where
  "failed results = filter (\<lambda>res. \<not> success res) results"

text \<open>Lines 692 to 699 and 704 to 706: the entry of one result.\<close>

definition successful_entry :: "BatchOutcome \<Rightarrow> jsstring" where
  "successful_entry res =
     glyph_bullet @ lit '' '' @ b_id res @ lit '': ''
     @ (case b_data res of
          None \<Rightarrow> lit ''Unknown''
        | Some trm \<Rightarrow> if truthy (t_name trm) then t_name trm else lit ''Unknown'') @ nl
     @ (case b_data res of
          None \<Rightarrow> []
        | Some trm \<Rightarrow>
            if truthy_opt (t_definition trm)
            then lit ''  Definition: '' @ shortened 100 (render_opt (t_definition trm)) @ nl
            else [])
     @ nl"

definition failed_entry :: "BatchOutcome \<Rightarrow> jsstring" where
  "failed_entry res =
     glyph_bullet @ lit '' '' @ b_id res @ lit '': '' @ render_opt (b_error res) @ nl"

definition batch_text :: "nat \<Rightarrow> BatchOutcome list \<Rightarrow> BatchOutcome list \<Rightarrow> jsstring" where
  "batch_text n succs fails =
     lit ''**Batch Processing Results:**'' @ nl @ nl
     @ lit ''**Summary:** '' @ nat_to_string (length succs) @ lit ''/'' @ nat_to_string n
     @ lit '' terms retrieved successfully'' @ nl @ nl
     @ (if length succs > 0
        then lit ''**Successfully Retrieved Terms:**'' @ nl @ concat (map successful_entry succs)
        else [])
     @ (if length fails > 0
        then lit ''**Failed Terms:**'' @ nl @ concat (map failed_entry fails)
        else [])"

definition batchGetHPOTerms :: "Remote \<Rightarrow> jsstring list option \<Rightarrow> handler_result" where
  "batchGetHPOTerms r arg_ids =
     (case arg_ids of
        None \<Rightarrow> (Inl ids_required, [])
      | Some ids \<Rightarrow>
          if length ids = 0
          then (Inr \<lparr>content_text = lit ''No IDs provided'', isError = False\<rparr>, [])
          else if length ids > 20
          then (Inr \<lparr>content_text = lit ''Maximum 20 terms can be processed at once'',
                     isError = False\<rparr>, [])
          else
            (let results = batch_results r ids in
             (Inr \<lparr>content_text = batch_text (length ids) (successful results) (failed results),
                   isError = False\<rparr>,
              batch_requests r ids)))"

section \<open>Reading an answer of the service\<close>

text \<open>
  What a handler makes of the answer to a hierarchy request through
  \<^verbatim>\<open>result.data || []\<close>: the list of a successful answer, and the empty list for a
  failed one.
\<close>

fun closure_or_empty ::
  "HttpFailure + (SimpleOntologyTerm list \<times> nat) \<Rightarrow> SimpleOntologyTerm list" where
  "closure_or_empty (Inl failure) = []"
| "closure_or_empty (Inr (ts, st)) = ts"

section \<open>A small ontology service\<close>

text \<open>
  An instance of the remote service, used for the examples. It holds a table of terms
  and, for each hierarchy endpoint and term id, either a failure or the full list; a
  request is answered with the slice of the list that its pagination window asks for
  (\<open>max\<close> entries after \<open>offset\<close>), and an unknown term with status 404.
\<close>

definition paged :: "nat option \<Rightarrow> nat option \<Rightarrow> 'a list \<Rightarrow> 'a list" where
  "paged mx off xs =
     (let rest = drop (case off of None \<Rightarrow> 0 | Some n \<Rightarrow> n) xs in
      case mx of None \<Rightarrow> rest | Some m \<Rightarrow> take m rest)"

definition service ::
  "(jsstring \<Rightarrow> OntologyTerm option)
    \<Rightarrow> (Endpoint \<Rightarrow> jsstring \<Rightarrow> HttpFailure + SimpleOntologyTerm list) \<Rightarrow> Remote" where
  "service terms closures =
     \<lparr>term_endpoint = (\<lambda>i. case terms i of
          None \<Rightarrow> Inl (ErrorResponse 404 (lit ''Not Found''))
        | Some t \<Rightarrow> Inr (Some t, 200)),
      hierarchy_endpoint = (\<lambda>ep i mx off. case closures ep i of
          Inl failure \<Rightarrow> Inl failure
        | Inr full \<Rightarrow> Inr (paged mx off full, 200))\<rparr>"

definition mk_term :: "jsstring \<Rightarrow> jsstring \<Rightarrow> OntologyTerm" where
  "mk_term i n =
     \<lparr>t_id = i, t_name = n, t_definition = None, t_comment = None, t_synonyms = None,
      t_xrefs = None, t_alternativeIds = None, t_isObsolete = None, t_replacement = None,
      t_subset = None, t_children = None, t_parents = None, t_ancestors = None,
      t_descendants = None\<rparr>"

text \<open>
  Five terms of the ontology: the root, two terms below it in a chain, and two children
  of the last of these.
\<close>

definition id_all :: jsstring where "id_all = lit ''HP:0000001''"
definition id_phen :: jsstring where "id_phen = lit ''HP:0000118''"
definition id_nerv :: jsstring where "id_nerv = lit ''HP:0000707''"
definition id_phys :: jsstring where "id_phys = lit ''HP:0012638''"
definition id_morph :: jsstring where "id_morph = lit ''HP:0012639''"

definition ref_all :: SimpleOntologyTerm where
  "ref_all = \<lparr>s_id = id_all, s_name = lit ''All''\<rparr>"
definition ref_phen :: SimpleOntologyTerm where
  "ref_phen = \<lparr>s_id = id_phen, s_name = lit ''Phenotypic abnormality''\<rparr>"
definition ref_nerv :: SimpleOntologyTerm where
  "ref_nerv = \<lparr>s_id = id_nerv, s_name = lit ''Abnormality of the nervous system''\<rparr>"
definition ref_phys :: SimpleOntologyTerm where
  "ref_phys = \<lparr>s_id = id_phys, s_name = lit ''Abnormal nervous system physiology''\<rparr>"
definition ref_morph :: SimpleOntologyTerm where
  "ref_morph = \<lparr>s_id = id_morph, s_name = lit ''Abnormal nervous system morphology''\<rparr>"

definition demo_refs :: "SimpleOntologyTerm list" where
  "demo_refs = [ref_all, ref_phen, ref_nerv, ref_phys, ref_morph]"

definition demo_terms :: "jsstring \<Rightarrow> OntologyTerm option" where
  "demo_terms i =
     map_option (\<lambda>t. mk_term (s_id t) (s_name t)) (find (\<lambda>t. s_id t = i) demo_refs)"

text \<open>Ancestors are listed nearest first.\<close>

definition demo_ancestors :: "jsstring \<Rightarrow> SimpleOntologyTerm list" where
  "demo_ancestors i =
     (if i = id_phen then [ref_all]
      else if i = id_nerv then [ref_phen, ref_all]
      else if i = id_phys \<or> i = id_morph then [ref_nerv, ref_phen, ref_all]
      else [])"

definition demo_descendants :: "jsstring \<Rightarrow> SimpleOntologyTerm list" where
  "demo_descendants i = filter (\<lambda>t. i \<in> s_id ` set (demo_ancestors (s_id t))) demo_refs"

definition demo_closures :: "Endpoint \<Rightarrow> jsstring \<Rightarrow> HttpFailure + SimpleOntologyTerm list" where
  "demo_closures ep i =
     (case ep of
        AncestorsEP \<Rightarrow> Inr (demo_ancestors i)
      | ParentsEP \<Rightarrow> Inr (take 1 (demo_ancestors i))
      | DescendantsEP \<Rightarrow> Inr (demo_descendants i)
      | ChildrenEP \<Rightarrow>
          Inr (filter (\<lambda>t. map s_id (take 1 (demo_ancestors (s_id t))) = [i]) demo_refs)
      | TermEP \<Rightarrow> Inr [])"

text \<open>The same closures, except that one request gets no response.\<close>

definition failing_at ::
  "Endpoint \<Rightarrow> jsstring \<Rightarrow> (Endpoint \<Rightarrow> jsstring \<Rightarrow> HttpFailure + SimpleOntologyTerm list)
    \<Rightarrow> Endpoint \<Rightarrow> jsstring \<Rightarrow> HttpFailure + SimpleOntologyTerm list" where
  "failing_at ep0 i0 closures ep i =
     (if ep = ep0 \<and> i = i0 then Inl NoResponse else closures ep i)"

definition demo_service :: Remote where
  "demo_service = service demo_terms demo_closures"

text \<open>
  The service that answers like \<open>r\<close>, except that a hierarchy request that fails in \<open>r\<close>
  is answered with an empty list.
\<close>

definition answered_empty :: "Remote \<Rightarrow> Remote" where
  "answered_empty r =
     r\<lparr>hierarchy_endpoint := (\<lambda>ep i mx off.
          case hierarchy_endpoint r ep i mx off of
            Inl failure \<Rightarrow> Inr ([], 200)
          | Inr answer \<Rightarrow> Inr answer)\<rparr>"

text \<open>The small service with the descendants request of one term failing.\<close>

definition flaky_service :: Remote where
  "flaky_service = service demo_terms (failing_at DescendantsEP id_nerv demo_closures)"

text \<open>An id that the small service does not know.\<close>

definition id_unknown :: jsstring where
  "id_unknown = lit ''HP:9999999''"

text \<open>A string that is a single leading surrogate, as an id.\<close>

definition id_surrogate :: jsstring where
  "id_surrogate = [55357]"

text \<open>The small service with the ancestors request of one term failing.\<close>

definition ancestors_down_service :: Remote where
  "ancestors_down_service = service demo_terms (failing_at AncestorsEP id_phys demo_closures)"

text \<open>
  A service whose term endpoint answers one id with status 404, one with an empty body,
  one with a term, and does not respond for any other.
\<close>

definition patchy_service :: Remote where
  "patchy_service =
     \<lparr>term_endpoint = (\<lambda>i.
          if i = id_unknown then Inl (ErrorResponse 404 (lit ''Not Found''))
          else if i = id_all then Inr (None, 200)
          else if i = id_phen then Inr (Some (mk_term id_phen (lit ''Phenotypic abnormality'')), 200)
          else Inl NoResponse),
      hierarchy_endpoint = hierarchy_endpoint demo_service\<rparr>"

text \<open>
  A service with one term whose ancestor closure is a chain of \<open>n\<close> entries, nearest
  first.
\<close>

definition id_leaf :: jsstring where
  "id_leaf = lit ''HP:0001250''"




section \<open>Facts about strings\<close>

lemma lit_HP: "lit ''HP:'' = [72, 80, 58]"
  by (simp add: lit_def)

lemma length_lit [simp]: "length (lit s) = length s"
  by (simp add: lit_def)

lemma canonical_startsWith: "is_canonical s \<Longrightarrow> startsWith s (lit ''HP:'')"
  by (simp add: is_canonical_def startsWith_def numeral_3_eq_3)

lemma seven_digits_all_digits: "is_seven_digits s \<Longrightarrow> all_digits s"
  by (auto simp: is_seven_digits_def all_digits_def)

lemma all_digits_not_prefixed: "all_digits s \<Longrightarrow> \<not> startsWith s (lit ''HP:'')"
  by (cases s) (auto simp: all_digits_def startsWith_def lit_HP is_digit_def)

lemma startsWith_append: "startsWith (p @ s) p"
  by (simp add: startsWith_def)

section \<open>Facts about the API client\<close>

lemma interceptor_message_truthy: "truthy (interceptor_message f)"
  by (cases f) (simp_all add: truthy_def lit_def)

lemma uri_error_truthy: "truthy uri_error_message"
  by (simp add: truthy_def uri_error_message_def lit_def)

lemma getTerm_malformed:
  "uri_malformed (formatHPOId ident) \<Longrightarrow>
   getTerm r ident = (\<lparr>data = None, error = Some uri_error_message, status = 500\<rparr>, [])"
  by (simp add: getTerm_def)

lemma getTerm_Inr:
  "\<not> uri_malformed (formatHPOId ident) \<Longrightarrow> term_endpoint r (formatHPOId ident) = Inr (d, st) \<Longrightarrow>
   getTerm r ident =
     (\<lparr>data = d, error = None, status = st\<rparr>, [Request TermEP (formatHPOId ident) None None])"
  by (simp add: getTerm_def)

lemma getTerm_Inl:
  "\<not> uri_malformed (formatHPOId ident) \<Longrightarrow> term_endpoint r (formatHPOId ident) = Inl f \<Longrightarrow>
   getTerm r ident =
     (\<lparr>data = None, error = Some (interceptor_message f), status = 500\<rparr>,
      [Request TermEP (formatHPOId ident) None None])"
  by (simp add: getTerm_def)

lemma getTerm_requests:
  "snd (getTerm r ident) =
     (if uri_malformed (formatHPOId ident) then []
      else [Request TermEP (formatHPOId ident) None None])"
  by (simp add: getTerm_def Let_def)

lemma getTerm_failed:
  "truthy_opt (error (fst (getTerm r ident))) =
     (uri_malformed (formatHPOId ident) \<or> isl (term_endpoint r (formatHPOId ident)))"
  by (cases "term_endpoint r (formatHPOId ident)")
     (auto simp: getTerm_def Let_def interceptor_message_truthy uri_error_truthy)

lemma getTerm_error_truthy:
  "truthy_opt (error (fst (getTerm r ident))) = (error (fst (getTerm r ident)) \<noteq> None)"
  by (cases "term_endpoint r (formatHPOId ident)")
     (auto simp: getTerm_def Let_def interceptor_message_truthy uri_error_truthy)

lemma getTerm_ok:
  assumes "error (fst (getTerm r ident)) = None"
  shows "\<not> uri_malformed (formatHPOId ident)"
  using assms by (auto simp: getTerm_def Let_def split: if_splits)


lemma hierarchy_call_malformed:
  "uri_malformed (formatHPOId ident) \<Longrightarrow>
   hierarchy_call ep r \<lparr>hp_id = ident, hp_max = mx, hp_offset = off\<rparr> =
     (\<lparr>data = None, error = Some uri_error_message, status = 500\<rparr>, [])"
  by (simp add: hierarchy_call_def)

lemma hierarchy_call_Inr:
  "\<not> uri_malformed (formatHPOId ident) \<Longrightarrow>
   hierarchy_endpoint r ep (formatHPOId ident) (query_param mx) (query_param off) = Inr (ts, st) \<Longrightarrow>
   hierarchy_call ep r \<lparr>hp_id = ident, hp_max = mx, hp_offset = off\<rparr> =
     (\<lparr>data = Some ts, error = None, status = st\<rparr>,
      [Request ep (formatHPOId ident) (query_param mx) (query_param off)])"
  by (simp add: hierarchy_call_def)

lemma hierarchy_call_Inl:
  "\<not> uri_malformed (formatHPOId ident) \<Longrightarrow>
   hierarchy_endpoint r ep (formatHPOId ident) (query_param mx) (query_param off) = Inl f \<Longrightarrow>
   hierarchy_call ep r \<lparr>hp_id = ident, hp_max = mx, hp_offset = off\<rparr> =
     (\<lparr>data = None, error = Some (interceptor_message f), status = 500\<rparr>,
      [Request ep (formatHPOId ident) (query_param mx) (query_param off)])"
  by (simp add: hierarchy_call_def)


lemma hierarchy_call_data:
  "data_or_empty (fst (hierarchy_call ep r \<lparr>hp_id = ident, hp_max = mx, hp_offset = off\<rparr>)) =
     (if uri_malformed (formatHPOId ident) then []
      else closure_or_empty
             (hierarchy_endpoint r ep (formatHPOId ident) (query_param mx) (query_param off)))"
  by (cases "hierarchy_endpoint r ep (formatHPOId ident) (query_param mx) (query_param off)")
     (auto simp: hierarchy_call_def Let_def)

lemma hierarchy_call_failed:
  "truthy_opt (error (fst (hierarchy_call ep r \<lparr>hp_id = ident, hp_max = mx, hp_offset = off\<rparr>))) =
     (uri_malformed (formatHPOId ident)
      \<or> isl (hierarchy_endpoint r ep (formatHPOId ident) (query_param mx) (query_param off)))"
  by (cases "hierarchy_endpoint r ep (formatHPOId ident) (query_param mx) (query_param off)")
     (auto simp: hierarchy_call_def Let_def interceptor_message_truthy uri_error_truthy)


lemmas hierarchy_defs = getAncestors_def getDescendants_def getParents_def getChildren_def

lemma count_closure:
  "(case answer of Inl failure \<Rightarrow> 0 | Inr (ts, st) \<Rightarrow> length ts) = length (closure_or_empty answer)"
  by (cases answer) auto

section \<open>Facts about the answered-empty service\<close>

lemma getTerm_answered_empty: "getTerm (answered_empty r) ident = getTerm r ident"
  by (simp add: getTerm_def answered_empty_def Let_def)

lemma closure_answered_empty:
  "closure_or_empty (hierarchy_endpoint (answered_empty r) ep i mx off) =
     closure_or_empty (hierarchy_endpoint r ep i mx off)"
  by (cases "hierarchy_endpoint r ep i mx off") (auto simp: answered_empty_def)

lemma data_answered_empty:
  "data_or_empty (fst (hierarchy_call ep (answered_empty r) \<lparr>hp_id = ident, hp_max = mx, hp_offset = off\<rparr>)) =
     data_or_empty (fst (hierarchy_call ep r \<lparr>hp_id = ident, hp_max = mx, hp_offset = off\<rparr>))"
  by (simp only: hierarchy_call_data closure_answered_empty)

section \<open>Facts about the handlers\<close>

lemma path_unfold:
  assumes "ident \<noteq> []"
  shows "getHPOTermPath r (Some ident) =
     (if truthy_opt (error (fst (getTerm r ident)))
      then (Inr \<lparr>content_text = lit ''Error retrieving term '' @ ident @ lit '': ''
                   @ render_opt (error (fst (getTerm r ident))), isError = True\<rparr>,
            snd (getTerm r ident))
      else if truthy_opt (error (fst (getAncestors r
                \<lparr>hp_id = ident, hp_max = Some 200, hp_offset = Some 0\<rparr>)))
      then (Inr \<lparr>content_text = lit ''Error retrieving ancestors for '' @ ident @ lit '': ''
                   @ render_opt (error (fst (getAncestors r
                       \<lparr>hp_id = ident, hp_max = Some 200, hp_offset = Some 0\<rparr>))),
                 isError = True\<rparr>,
            snd (getTerm r ident)
            @ snd (getAncestors r \<lparr>hp_id = ident, hp_max = Some 200, hp_offset = Some 0\<rparr>))
      else
        (case data (fst (getTerm r ident)) of
           None \<Rightarrow>
             Inr \<lparr>content_text = lit ''Term '' @ ident @ lit '' not found'', isError = False\<rparr>
         | Some trm \<Rightarrow>
             Inr \<lparr>content_text = path_text ident (pathTerms (data_or_empty (fst (getAncestors r
                      \<lparr>hp_id = ident, hp_max = Some 200, hp_offset = Some 0\<rparr>))) trm),
                   isError = False\<rparr>,
         snd (getTerm r ident)
         @ snd (getAncestors r \<lparr>hp_id = ident, hp_max = Some 200, hp_offset = Some 0\<rparr>)))"
  using assms
  by (simp add: getHPOTermPath_def truthy_def split_beta Let_def
      split: option.split del: data_or_empty.simps)

lemma stats_unfold:
  assumes "ident \<noteq> []"
  shows "fst (getHPOTermStats r (Some ident)) =
     (if truthy_opt (error (fst (getTerm r ident)))
      then Inr \<lparr>content_text = lit ''Error retrieving term '' @ ident @ lit '': ''
                  @ render_opt (error (fst (getTerm r ident))), isError = True\<rparr>
      else case data (fst (getTerm r ident)) of
        None \<Rightarrow> Inr \<lparr>content_text = lit ''Term '' @ ident @ lit '' not found'', isError = False\<rparr>
      | Some trm \<Rightarrow>
          Inr \<lparr>content_text = stats_text ident trm
                 (data_or_empty (fst (getAncestors r
                    \<lparr>hp_id = ident, hp_max = Some 1000, hp_offset = Some 0\<rparr>)))
                 (data_or_empty (fst (getDescendants r
                    \<lparr>hp_id = ident, hp_max = Some 1000, hp_offset = Some 0\<rparr>)))
                 (data_or_empty (fst (getParents r
                    \<lparr>hp_id = ident, hp_max = Some 100, hp_offset = Some 0\<rparr>)))
                 (data_or_empty (fst (getChildren r
                    \<lparr>hp_id = ident, hp_max = Some 100, hp_offset = Some 0\<rparr>))),
               isError = False\<rparr>)"
  using assms
  by (simp add: getHPOTermStats_def truthy_def split_beta Let_def
      split: option.split del: data_or_empty.simps)

lemma compare_unfold:
  assumes "term1 \<noteq> []" and "term2 \<noteq> []"
  shows "compareHPOTerms r (Some term1) (Some term2) =
     (if truthy_opt (error (fst (getTerm r term1))) \<or> truthy_opt (error (fst (getTerm r term2)))
      then (Inr \<lparr>content_text = lit ''Error retrieving terms: ''
                   @ render_opt (or_opt (error (fst (getTerm r term1))) (error (fst (getTerm r term2)))),
                 isError = True\<rparr>,
            snd (getTerm r term1) @ snd (getTerm r term2))
      else if data (fst (getTerm r term1)) = None \<or> data (fst (getTerm r term2)) = None
      then (Inr \<lparr>content_text = lit ''One or both terms not found: '' @ term1 @ lit '', '' @ term2,
                 isError = False\<rparr>,
            snd (getTerm r term1) @ snd (getTerm r term2))
      else (Inr \<lparr>content_text =
                   compare_text term1 term2 (t_name (the (data (fst (getTerm r term1)))))
                     (t_name (the (data (fst (getTerm r term2)))))
                     (relationship term1 term2
                        (data_or_empty (fst (getAncestors r
                           \<lparr>hp_id = term1, hp_max = Some 200, hp_offset = Some 0\<rparr>)))
                        (data_or_empty (fst (getAncestors r
                           \<lparr>hp_id = term2, hp_max = Some 200, hp_offset = Some 0\<rparr>))))
                     (commonAncestors
                        (data_or_empty (fst (getAncestors r
                           \<lparr>hp_id = term1, hp_max = Some 200, hp_offset = Some 0\<rparr>)))
                        (data_or_empty (fst (getAncestors r
                           \<lparr>hp_id = term2, hp_max = Some 200, hp_offset = Some 0\<rparr>)))),
                 isError = False\<rparr>,
            snd (getTerm r term1) @ snd (getTerm r term2)
            @ snd (getAncestors r \<lparr>hp_id = term1, hp_max = Some 200, hp_offset = Some 0\<rparr>)
            @ snd (getAncestors r \<lparr>hp_id = term2, hp_max = Some 200, hp_offset = Some 0\<rparr>)))"
  using assms
  by (simp add: compareHPOTerms_def truthy_def split_beta Let_def
      split: option.split del: data_or_empty.simps)

section \<open>Facts about the comparison\<close>

lemma list_ex_ids: "list_ex (\<lambda>a. s_id a = x) xs = (x \<in> s_id ` set xs)"
  by (auto simp: list_ex_iff)

lemma common_nonempty:
  "(length (commonAncestors xs ys) > 0) = ({a \<in> set ys. s_id a \<in> s_id ` set xs} \<noteq> {})"
  by (auto simp: commonAncestors_def filter_empty_conv)

lemma relationship_sets:
  "relationship term1 term2 ancestors1 ancestors2 =
     (if term2 \<in> s_id ` set ancestors1 then FirstIsDescendantOfSecond
      else if term1 \<in> s_id ` set ancestors2 then SecondIsDescendantOfFirst
      else if {a \<in> set ancestors2. s_id a \<in> s_id ` set ancestors1} \<noteq> {}
        then RelatedThroughCommonAncestors
      else NoDirectRelationship)"
  unfolding relationship_def list_ex_ids common_nonempty by simp

lemma commonAncestors_Nil [simp]:
  "commonAncestors [] ys = []" "commonAncestors xs [] = []"
  by (simp_all add: commonAncestors_def)

section \<open>Facts about the example services\<close>

lemmas demo_ids = id_all_def id_phen_def id_nerv_def id_phys_def id_morph_def

lemmas demo_refs_defs =
  demo_refs_def ref_all_def ref_phen_def ref_nerv_def ref_phys_def ref_morph_def

lemmas text_defs = lit_def nl_def glyph_arrow_def glyph_branch_def glyph_bullet_def

lemmas surrogate_defs = is_leading_surrogate_def is_trailing_surrogate_def

lemma demo_canonical [simp]:
  "formatHPOId id_all = id_all" "formatHPOId id_phen = id_phen" "formatHPOId id_nerv = id_nerv"
  "formatHPOId id_phys = id_phys" "formatHPOId id_morph = id_morph"
  "formatHPOId id_unknown = id_unknown" "formatHPOId id_leaf = id_leaf"
  by (simp_all add: formatHPOId_def startsWith_def demo_ids id_unknown_def id_leaf_def lit_def)

lemma demo_wellformed [simp]:
  "\<not> uri_malformed id_all" "\<not> uri_malformed id_phen" "\<not> uri_malformed id_nerv"
  "\<not> uri_malformed id_phys" "\<not> uri_malformed id_morph" "\<not> uri_malformed id_unknown"
  "\<not> uri_malformed id_leaf"
  by (simp_all add: demo_ids id_unknown_def id_leaf_def lit_def surrogate_defs)

lemma demo_ids_nonempty [simp]:
  "id_all \<noteq> []" "id_phen \<noteq> []" "id_nerv \<noteq> []" "id_phys \<noteq> []" "id_morph \<noteq> []"
  "id_unknown \<noteq> []" "id_leaf \<noteq> []"
  by (simp_all add: demo_ids id_unknown_def id_leaf_def lit_def)

lemma demo_ids_neq [simp]:
  "id_all \<noteq> id_phen" "id_all \<noteq> id_nerv" "id_all \<noteq> id_phys"
  "id_all \<noteq> id_morph" "id_all \<noteq> id_unknown" "id_phen \<noteq> id_all"
  "id_phen \<noteq> id_nerv" "id_phen \<noteq> id_phys" "id_phen \<noteq> id_morph"
  "id_phen \<noteq> id_unknown" "id_nerv \<noteq> id_all" "id_nerv \<noteq> id_phen"
  "id_nerv \<noteq> id_phys" "id_nerv \<noteq> id_morph" "id_nerv \<noteq> id_unknown"
  "id_phys \<noteq> id_all" "id_phys \<noteq> id_phen" "id_phys \<noteq> id_nerv"
  "id_phys \<noteq> id_morph" "id_phys \<noteq> id_unknown" "id_morph \<noteq> id_all"
  "id_morph \<noteq> id_phen" "id_morph \<noteq> id_nerv" "id_morph \<noteq> id_phys"
  "id_morph \<noteq> id_unknown" "id_unknown \<noteq> id_all" "id_unknown \<noteq> id_phen"
  "id_unknown \<noteq> id_nerv" "id_unknown \<noteq> id_phys" "id_unknown \<noteq> id_morph"
  by (simp_all add: demo_ids id_unknown_def lit_def)

lemma id_surrogate_facts [simp]:
  "id_surrogate \<noteq> []" "formatHPOId id_surrogate = id_surrogate" "uri_malformed id_surrogate"
  by (simp_all add: id_surrogate_def formatHPOId_def startsWith_def all_digits_def is_digit_def
      lit_def surrogate_defs)

lemma demo_terms_simps [simp]:
  "demo_terms id_all = Some (mk_term id_all (lit ''All''))"
  "demo_terms id_phen = Some (mk_term id_phen (lit ''Phenotypic abnormality''))"
  "demo_terms id_nerv = Some (mk_term id_nerv (lit ''Abnormality of the nervous system''))"
  "demo_terms id_phys = Some (mk_term id_phys (lit ''Abnormal nervous system physiology''))"
  "demo_terms id_morph = Some (mk_term id_morph (lit ''Abnormal nervous system morphology''))"
  "demo_terms id_unknown = None"
  by (simp_all add: demo_terms_def demo_refs_defs)

lemma demo_ancestors_simps [simp]:
  "demo_ancestors id_all = []"
  "demo_ancestors id_phen = [ref_all]"
  "demo_ancestors id_nerv = [ref_phen, ref_all]"
  "demo_ancestors id_phys = [ref_nerv, ref_phen, ref_all]"
  "demo_ancestors id_morph = [ref_nerv, ref_phen, ref_all]"
  by (simp_all add: demo_ancestors_def)

lemma demo_closures_nerv:
  "demo_closures AncestorsEP id_nerv = Inr [ref_phen, ref_all]"
  "demo_closures ParentsEP id_nerv = Inr [ref_phen]"
  "demo_closures ChildrenEP id_nerv = Inr [ref_phys, ref_morph]"
  "demo_closures DescendantsEP id_nerv = Inr [ref_phys, ref_morph]"
  by (simp_all add: demo_closures_def demo_descendants_def demo_refs_defs)

lemma service_getTerm_Some:
  "\<not> uri_malformed (formatHPOId i) \<Longrightarrow> terms (formatHPOId i) = Some t \<Longrightarrow>
   getTerm (service terms closures) i =
     (\<lparr>data = Some t, error = None, status = 200\<rparr>, [Request TermEP (formatHPOId i) None None])"
  by (simp add: getTerm_def service_def Let_def)

lemma service_getTerm_None:
  "\<not> uri_malformed (formatHPOId i) \<Longrightarrow> terms (formatHPOId i) = None \<Longrightarrow>
   getTerm (service terms closures) i =
     (\<lparr>data = None, error = Some (interceptor_message (ErrorResponse 404 (lit ''Not Found''))),
       status = 500\<rparr>,
      [Request TermEP (formatHPOId i) None None])"
  by (simp add: getTerm_def service_def Let_def)

lemma service_hierarchy_Inr:
  "\<not> uri_malformed (formatHPOId i) \<Longrightarrow> closures ep (formatHPOId i) = Inr full \<Longrightarrow>
   hierarchy_call ep (service terms closures) \<lparr>hp_id = i, hp_max = mx, hp_offset = off\<rparr> =
     (\<lparr>data = Some (paged (query_param mx) (query_param off) full), error = None, status = 200\<rparr>,
      [Request ep (formatHPOId i) (query_param mx) (query_param off)])"
  by (simp add: hierarchy_call_def service_def Let_def)

lemma service_hierarchy_Inl:
  "\<not> uri_malformed (formatHPOId i) \<Longrightarrow> closures ep (formatHPOId i) = Inl failure \<Longrightarrow>
   hierarchy_call ep (service terms closures) \<lparr>hp_id = i, hp_max = mx, hp_offset = off\<rparr> =
     (\<lparr>data = None, error = Some (interceptor_message failure), status = 500\<rparr>,
      [Request ep (formatHPOId i) (query_param mx) (query_param off)])"
  by (simp add: hierarchy_call_def service_def Let_def)

lemma paged_all: "length xs \<le> m \<Longrightarrow> paged (Some m) None xs = xs"
  by (simp add: paged_def)

lemma not_found_message:
  "interceptor_message (ErrorResponse 404 (lit ''Not Found'')) =
     lit ''HPO API Error (404): Not Found''"
  by (simp add: lit_def nat_to_string.simps)

lemma no_response_message:
  "interceptor_message NoResponse =
     lit ''HPO API is not responding. Please check your internet connection.''"
  by simp



section \<open>The normalizer\<close>

text \<open>
  Claim C9. The normalizer is a total function of its argument alone. A string of seven
  digits is prefixed with \<^verbatim>\<open>HP:\<close>; a string that matches \<^verbatim>\<open>HP:\d{7}\<close> is returned
  unchanged; normalizing twice is normalizing once (on canonical ids and on every other
  string); and an input that neither starts with \<^verbatim>\<open>HP:\<close> nor consists of digits
  is passed through unchanged.
\<close>

theorem formatHPOId_normalizes:
  "(is_seven_digits s \<longrightarrow> formatHPOId s = lit ''HP:'' @ s)
   \<and> (is_canonical c \<longrightarrow> formatHPOId c = c \<and> formatHPOId (formatHPOId c) = formatHPOId c)
   \<and> formatHPOId (formatHPOId x) = formatHPOId x
   \<and> (\<not> all_digits m \<longrightarrow> formatHPOId m = m)"
proof (intro conjI impI)
  assume s: "is_seven_digits s"
  then have "all_digits s" "\<not> startsWith s (lit ''HP:'')" "length s = 7"
    by (simp_all add: seven_digits_all_digits all_digits_not_prefixed is_seven_digits_def)
  then show "formatHPOId s = lit ''HP:'' @ s"
    by (simp add: formatHPOId_def padStart0_def)
next
  assume c: "is_canonical c"
  then show "formatHPOId c = c"
    by (simp add: formatHPOId_def canonical_startsWith)
  then show "formatHPOId (formatHPOId c) = formatHPOId c"
    by simp
next
  show "formatHPOId (formatHPOId x) = formatHPOId x"
    by (simp add: formatHPOId_def startsWith_append)
next
  assume "\<not> all_digits m"
  then show "formatHPOId m = m"
    by (simp add: formatHPOId_def)
qed

theorem formatHPOId_normalizes_witness:
  "is_seven_digits (lit ''0000118'')
   \<and> formatHPOId (lit ''0000118'') = lit ''HP:0000118''
   \<and> is_canonical (lit ''HP:0000118'')
   \<and> formatHPOId (lit ''HP:0000118'') = lit ''HP:0000118''
   \<and> formatHPOId (formatHPOId (lit ''HP:0000118'')) = formatHPOId (lit ''HP:0000118'')
   \<and> formatHPOId (formatHPOId (lit ''118'')) = formatHPOId (lit ''118'')
   \<and> \<not> all_digits (lit ''seizure'')
   \<and> formatHPOId (lit ''seizure'') = lit ''seizure''"
proof -
  have a: "is_seven_digits (lit ''0000118'')"
    by (simp add: is_seven_digits_def lit_def is_digit_def)
  have b: "is_canonical (lit ''HP:0000118'')"
    by (simp add: is_canonical_def lit_def is_digit_def)
  have c: "\<not> all_digits (lit ''seizure'')"
    by (simp add: all_digits_def lit_def is_digit_def)
  have d: "lit ''HP:'' @ lit ''0000118'' = lit ''HP:0000118''"
    by (simp add: lit_def)
  show ?thesis
    using a b c d
      formatHPOId_normalizes [of "lit ''0000118''" "lit ''HP:0000118''" "lit ''118''" "lit ''seizure''"]
    by simp
qed

section \<open>The path reconstructor\<close>

text \<open>
  Claim C2. When the term fetch and the ancestor fetch of the handler both succeed, the
  first with a term and the second with a list (nearest ancestor first), the handler
  succeeds; the path it prints is that list reversed, root first, with the fetched term
  as its last element, and the depth it prints is the number of ancestors, the length of
  the path minus one. With no ancestor the path is the term alone and the depth is 0,
  and the result is not an error.
\<close>

theorem path_root_first:
  assumes "ident \<noteq> []"
    and "fst (getTerm r ident) = \<lparr>data = Some trm, error = None, status = st\<rparr>"
    and "fst (getAncestors r \<lparr>hp_id = ident, hp_max = Some 200, hp_offset = Some 0\<rparr>) =
           \<lparr>data = Some ancestors, error = None, status = st'\<rparr>"
  shows "fst (getHPOTermPath r (Some ident)) =
           Inr \<lparr>content_text =
                  lit ''Hierarchical path to '' @ ident @ lit '':'' @ nl @ nl
                  @ formattedPath (rev ancestors @ [\<lparr>s_id = t_id trm, s_name = t_name trm\<rparr>])
                  @ nl @ nl @ lit ''Path depth: '' @ nat_to_string (length ancestors)
                  @ lit '' levels'',
                isError = False\<rparr>
       \<and> length (rev ancestors @ [\<lparr>s_id = t_id trm, s_name = t_name trm\<rparr>]) - 1 = length ancestors"
  using assms(2,3)
  by (simp add: path_unfold [OF assms(1)] path_text_def pathTerms_def)

theorem path_root_first_witness:
  "id_phys \<noteq> []
   \<and> fst (getTerm demo_service id_phys) =
       \<lparr>data = Some (mk_term id_phys (lit ''Abnormal nervous system physiology'')),
         error = None, status = 200\<rparr>
   \<and> fst (getAncestors demo_service \<lparr>hp_id = id_phys, hp_max = Some 200, hp_offset = Some 0\<rparr>) =
       \<lparr>data = Some [ref_nerv, ref_phen, ref_all], error = None, status = 200\<rparr>
   \<and> fst (getHPOTermPath demo_service (Some id_phys)) =
       Inr \<lparr>content_text =
              lit ''Hierarchical path to HP:0012638:'' @ nl @ nl
              @ glyph_branch @ lit '' HP:0000001: All'' @ nl
              @ lit ''  '' @ glyph_branch @ lit '' HP:0000118: Phenotypic abnormality'' @ nl
              @ lit ''    '' @ glyph_branch @ lit '' HP:0000707: Abnormality of the nervous system''
              @ nl
              @ lit ''      '' @ glyph_arrow @ lit '' HP:0012638: Abnormal nervous system physiology''
              @ nl @ nl @ lit ''Path depth: 3 levels'',
            isError = False\<rparr>
   \<and> id_all \<noteq> []
   \<and> fst (getTerm demo_service id_all) =
       \<lparr>data = Some (mk_term id_all (lit ''All'')), error = None, status = 200\<rparr>
   \<and> fst (getAncestors demo_service \<lparr>hp_id = id_all, hp_max = Some 200, hp_offset = Some 0\<rparr>) =
       \<lparr>data = Some [], error = None, status = 200\<rparr>
   \<and> fst (getHPOTermPath demo_service (Some id_all)) =
       Inr \<lparr>content_text =
              lit ''Hierarchical path to HP:0000001:'' @ nl @ nl
              @ glyph_arrow @ lit '' HP:0000001: All''
              @ nl @ nl @ lit ''Path depth: 0 levels'',
            isError = False\<rparr>"
proof -
  have t1: "fst (getTerm demo_service id_phys) =
       \<lparr>data = Some (mk_term id_phys (lit ''Abnormal nervous system physiology'')),
         error = None, status = 200\<rparr>"
    by (simp add: demo_service_def service_getTerm_Some)
  have a1: "fst (getAncestors demo_service \<lparr>hp_id = id_phys, hp_max = Some 200, hp_offset = Some 0\<rparr>) =
       \<lparr>data = Some [ref_nerv, ref_phen, ref_all], error = None, status = 200\<rparr>"
    by (simp add: demo_service_def getAncestors_def demo_closures_def paged_all
        service_hierarchy_Inr [where full = "[ref_nerv, ref_phen, ref_all]"])
  have t0: "fst (getTerm demo_service id_all) =
       \<lparr>data = Some (mk_term id_all (lit ''All'')), error = None, status = 200\<rparr>"
    by (simp add: demo_service_def service_getTerm_Some)
  have a0: "fst (getAncestors demo_service \<lparr>hp_id = id_all, hp_max = Some 200, hp_offset = Some 0\<rparr>) =
       \<lparr>data = Some [], error = None, status = 200\<rparr>"
    by (simp add: demo_service_def getAncestors_def demo_closures_def paged_all
        service_hierarchy_Inr [where full = "[]"])
  have n: "id_phys \<noteq> []" "id_all \<noteq> []"
    by simp_all
  have r1: "fst (getHPOTermPath demo_service (Some id_phys)) =
       Inr \<lparr>content_text =
              lit ''Hierarchical path to HP:0012638:'' @ nl @ nl
              @ glyph_branch @ lit '' HP:0000001: All'' @ nl
              @ lit ''  '' @ glyph_branch @ lit '' HP:0000118: Phenotypic abnormality'' @ nl
              @ lit ''    '' @ glyph_branch @ lit '' HP:0000707: Abnormality of the nervous system''
              @ nl
              @ lit ''      '' @ glyph_arrow @ lit '' HP:0012638: Abnormal nervous system physiology''
              @ nl @ nl @ lit ''Path depth: 3 levels'',
            isError = False\<rparr>"
    using path_root_first [OF n(1) t1 a1]
    by (simp add: formattedPath_def repeat_def mk_term_def demo_refs_defs demo_ids text_defs
        nat_to_string.simps enumerate_eq_zip upt_rec)
  have r0: "fst (getHPOTermPath demo_service (Some id_all)) =
       Inr \<lparr>content_text =
              lit ''Hierarchical path to HP:0000001:'' @ nl @ nl
              @ glyph_arrow @ lit '' HP:0000001: All''
              @ nl @ nl @ lit ''Path depth: 0 levels'',
            isError = False\<rparr>"
    using path_root_first [OF n(2) t0 a0]
    by (simp add: formattedPath_def repeat_def mk_term_def demo_refs_defs demo_ids text_defs
        nat_to_string.simps enumerate_eq_zip upt_rec)
  show ?thesis
    using n t1 a1 r1 t0 a0 r0 by (intro conjI)
qed

section \<open>Truncated ancestor closures\<close>




section \<open>The statistics aggregator\<close>

lemma flaky_fetches:
  "fst (getTerm flaky_service id_nerv) =
     \<lparr>data = Some (mk_term id_nerv (lit ''Abnormality of the nervous system'')),
       error = None, status = 200\<rparr>"
  "fst (getAncestors flaky_service \<lparr>hp_id = id_nerv, hp_max = Some 1000, hp_offset = Some 0\<rparr>) =
     \<lparr>data = Some [ref_phen, ref_all], error = None, status = 200\<rparr>"
  "fst (getDescendants flaky_service \<lparr>hp_id = id_nerv, hp_max = Some 1000, hp_offset = Some 0\<rparr>) =
     \<lparr>data = None, error = Some (interceptor_message NoResponse), status = 500\<rparr>"
  "fst (getParents flaky_service \<lparr>hp_id = id_nerv, hp_max = Some 100, hp_offset = Some 0\<rparr>) =
     \<lparr>data = Some [ref_phen], error = None, status = 200\<rparr>"
  "fst (getChildren flaky_service \<lparr>hp_id = id_nerv, hp_max = Some 100, hp_offset = Some 0\<rparr>) =
     \<lparr>data = Some [ref_phys, ref_morph], error = None, status = 200\<rparr>"
  "fst (getTerm flaky_service id_unknown) =
     \<lparr>data = None, error = Some (interceptor_message (ErrorResponse 404 (lit ''Not Found''))),
       status = 500\<rparr>"
  "fst (getTerm flaky_service id_surrogate) =
     \<lparr>data = None, error = Some uri_error_message, status = 500\<rparr>"
  by (simp_all add: flaky_service_def hierarchy_defs service_getTerm_Some service_getTerm_None
      getTerm_malformed failing_at_def demo_closures_nerv paged_all
      service_hierarchy_Inr [where full = "[ref_phen, ref_all]"]
      service_hierarchy_Inr [where full = "[ref_phen]"]
      service_hierarchy_Inr [where full = "[ref_phys, ref_morph]"]
      service_hierarchy_Inl [where failure = NoResponse]
      del: interceptor_message.simps)

lemma flaky_answers:
  "hierarchy_endpoint flaky_service AncestorsEP id_nerv (Some 1000) None =
     Inr ([ref_phen, ref_all], 200)"
  "hierarchy_endpoint flaky_service DescendantsEP id_nerv (Some 1000) None = Inl NoResponse"
  "hierarchy_endpoint flaky_service ParentsEP id_nerv (Some 100) None = Inr ([ref_phen], 200)"
  "hierarchy_endpoint flaky_service ChildrenEP id_nerv (Some 100) None =
     Inr ([ref_phys, ref_morph], 200)"
  "term_endpoint flaky_service id_nerv =
     Inr (Some (mk_term id_nerv (lit ''Abnormality of the nervous system'')), 200)"
  by (simp_all add: flaky_service_def service_def failing_at_def demo_closures_nerv paged_all)

lemma stats_text_nerv:
  "stats_text id_nerv (mk_term id_nerv (lit ''Abnormality of the nervous system''))
     [ref_phen, ref_all] [] [ref_phen] [ref_phys, ref_morph] =
   lit ''**Statistics for HP:0000707:**'' @ nl @ nl
              @ lit ''**Name:** Abnormality of the nervous system'' @ nl @ nl
              @ lit ''**Hierarchy Statistics:**'' @ nl
              @ lit ''  '' @ glyph_bullet @ lit '' Ancestors: 2'' @ nl
              @ lit ''  '' @ glyph_bullet @ lit '' Direct Parents: 1'' @ nl
              @ lit ''  '' @ glyph_bullet @ lit '' Direct Children: 2'' @ nl
              @ lit ''  '' @ glyph_bullet @ lit '' All Descendants: 0'' @ nl
              @ lit ''  '' @ glyph_bullet @ lit '' Depth from Root: 2'' @ nl @ nl
              @ lit ''**Term Properties:**'' @ nl
              @ lit ''  '' @ glyph_bullet @ lit '' Synonyms: 0'' @ nl
              @ lit ''  '' @ glyph_bullet @ lit '' Cross-references: 0'' @ nl
              @ lit ''  '' @ glyph_bullet @ lit '' Alternative IDs: 0'' @ nl
              @ lit ''  '' @ glyph_bullet @ lit '' Obsolete: No'' @ nl"
  by (simp add: stats_text_def mk_term_def demo_ids text_defs nat_to_string.simps)

text \<open>
  Claim C3. If the term fetch fails, the handler returns an error result with the
  message of that failure, whatever the four hierarchy fetches answered. If the term
  fetch succeeds with a term, the handler reports the statistics, and each of the four
  counts it prints is read from the answer to its own request alone: the length of the
  list when that request was answered, and 0 when it failed.
\<close>

theorem stats_term_load_bearing:
  assumes "ident \<noteq> []"
  shows "(error (fst (getTerm r ident)) = Some msg \<longrightarrow>
            fst (getHPOTermStats r (Some ident)) =
              Inr \<lparr>content_text = lit ''Error retrieving term '' @ ident @ lit '': '' @ msg,
                    isError = True\<rparr>)
       \<and> (fst (getTerm r ident) = \<lparr>data = Some trm, error = None, status = st\<rparr> \<longrightarrow>
            fst (getHPOTermStats r (Some ident)) =
              (let count = (\<lambda>ep mx.
                     case hierarchy_endpoint r ep (formatHPOId ident) (Some mx) None of
                       Inl failure \<Rightarrow> 0
                     | Inr (ts, st') \<Rightarrow> length ts) in
               Inr \<lparr>content_text =
                      lit ''**Statistics for '' @ ident @ lit '':**'' @ nl @ nl
                      @ lit ''**Name:** '' @ t_name trm @ nl @ nl
                      @ (if truthy_opt (t_definition trm)
                         then lit ''**Definition:** '' @ shortened 200 (render_opt (t_definition trm))
                              @ nl @ nl
                         else [])
                      @ lit ''**Hierarchy Statistics:**'' @ nl
                      @ lit ''  '' @ glyph_bullet @ lit '' Ancestors: ''
                        @ nat_to_string (count AncestorsEP 1000) @ nl
                      @ lit ''  '' @ glyph_bullet @ lit '' Direct Parents: ''
                        @ nat_to_string (count ParentsEP 100) @ nl
                      @ lit ''  '' @ glyph_bullet @ lit '' Direct Children: ''
                        @ nat_to_string (count ChildrenEP 100) @ nl
                      @ lit ''  '' @ glyph_bullet @ lit '' All Descendants: ''
                        @ nat_to_string (count DescendantsEP 1000) @ nl
                      @ lit ''  '' @ glyph_bullet @ lit '' Depth from Root: ''
                        @ nat_to_string (count AncestorsEP 1000) @ nl @ nl
                      @ lit ''**Term Properties:**'' @ nl
                      @ lit ''  '' @ glyph_bullet @ lit '' Synonyms: ''
                        @ nat_to_string (opt_length (t_synonyms trm)) @ nl
                      @ lit ''  '' @ glyph_bullet @ lit '' Cross-references: ''
                        @ nat_to_string (opt_length (t_xrefs trm)) @ nl
                      @ lit ''  '' @ glyph_bullet @ lit '' Alternative IDs: ''
                        @ nat_to_string (opt_length (t_alternativeIds trm)) @ nl
                      @ lit ''  '' @ glyph_bullet @ lit '' Obsolete: ''
                        @ (if t_isObsolete trm = Some True then lit ''Yes'' else lit ''No'') @ nl
                      @ (if truthy_opt (t_comment trm)
                         then nl @ lit ''**Comment:** '' @ shortened 150 (render_opt (t_comment trm))
                         else []),
                    isError = False\<rparr>))"
proof (intro conjI impI)
  assume e: "error (fst (getTerm r ident)) = Some msg"
  then have "truthy_opt (error (fst (getTerm r ident)))"
    using getTerm_error_truthy [of r ident] by simp
  with e show "fst (getHPOTermStats r (Some ident)) =
      Inr \<lparr>content_text = lit ''Error retrieving term '' @ ident @ lit '': '' @ msg,
            isError = True\<rparr>"
    by (simp add: stats_unfold [OF assms])
next
  assume t: "fst (getTerm r ident) = \<lparr>data = Some trm, error = None, status = st\<rparr>"
  then have "error (fst (getTerm r ident)) = None"
    by simp
  then have w: "\<not> uri_malformed (formatHPOId ident)"
    by (rule getTerm_ok)
  have "fst (getHPOTermStats r (Some ident)) =
      Inr \<lparr>content_text = stats_text ident trm
             (closure_or_empty (hierarchy_endpoint r AncestorsEP (formatHPOId ident) (Some 1000) None))
             (closure_or_empty (hierarchy_endpoint r DescendantsEP (formatHPOId ident) (Some 1000) None))
             (closure_or_empty (hierarchy_endpoint r ParentsEP (formatHPOId ident) (Some 100) None))
             (closure_or_empty (hierarchy_endpoint r ChildrenEP (formatHPOId ident) (Some 100) None)),
           isError = False\<rparr>"
    using t w by (simp add: stats_unfold [OF assms] hierarchy_defs hierarchy_call_data
        del: data_or_empty.simps)
  then show "fst (getHPOTermStats r (Some ident)) =
      (let count = (\<lambda>ep mx.
             case hierarchy_endpoint r ep (formatHPOId ident) (Some mx) None of
               Inl failure \<Rightarrow> 0
             | Inr (ts, st') \<Rightarrow> length ts) in
       Inr \<lparr>content_text =
              lit ''**Statistics for '' @ ident @ lit '':**'' @ nl @ nl
              @ lit ''**Name:** '' @ t_name trm @ nl @ nl
              @ (if truthy_opt (t_definition trm)
                 then lit ''**Definition:** '' @ shortened 200 (render_opt (t_definition trm))
                      @ nl @ nl
                 else [])
              @ lit ''**Hierarchy Statistics:**'' @ nl
              @ lit ''  '' @ glyph_bullet @ lit '' Ancestors: ''
                @ nat_to_string (count AncestorsEP 1000) @ nl
              @ lit ''  '' @ glyph_bullet @ lit '' Direct Parents: ''
                @ nat_to_string (count ParentsEP 100) @ nl
              @ lit ''  '' @ glyph_bullet @ lit '' Direct Children: ''
                @ nat_to_string (count ChildrenEP 100) @ nl
              @ lit ''  '' @ glyph_bullet @ lit '' All Descendants: ''
                @ nat_to_string (count DescendantsEP 1000) @ nl
              @ lit ''  '' @ glyph_bullet @ lit '' Depth from Root: ''
                @ nat_to_string (count AncestorsEP 1000) @ nl @ nl
              @ lit ''**Term Properties:**'' @ nl
              @ lit ''  '' @ glyph_bullet @ lit '' Synonyms: ''
                @ nat_to_string (opt_length (t_synonyms trm)) @ nl
              @ lit ''  '' @ glyph_bullet @ lit '' Cross-references: ''
                @ nat_to_string (opt_length (t_xrefs trm)) @ nl
              @ lit ''  '' @ glyph_bullet @ lit '' Alternative IDs: ''
                @ nat_to_string (opt_length (t_alternativeIds trm)) @ nl
              @ lit ''  '' @ glyph_bullet @ lit '' Obsolete: ''
                @ (if t_isObsolete trm = Some True then lit ''Yes'' else lit ''No'') @ nl
              @ (if truthy_opt (t_comment trm)
                 then nl @ lit ''**Comment:** '' @ shortened 150 (render_opt (t_comment trm))
                 else []),
            isError = False\<rparr>)"
    by (simp add: stats_text_def Let_def count_closure)
qed

theorem stats_term_load_bearing_witness:
  "id_nerv \<noteq> []
   \<and> fst (getTerm flaky_service id_nerv) =
       \<lparr>data = Some (mk_term id_nerv (lit ''Abnormality of the nervous system'')),
         error = None, status = 200\<rparr>
   \<and> hierarchy_endpoint flaky_service AncestorsEP (formatHPOId id_nerv) (Some 1000) None =
       Inr ([ref_phen, ref_all], 200)
   \<and> hierarchy_endpoint flaky_service DescendantsEP (formatHPOId id_nerv) (Some 1000) None =
       Inl NoResponse
   \<and> hierarchy_endpoint flaky_service ParentsEP (formatHPOId id_nerv) (Some 100) None =
       Inr ([ref_phen], 200)
   \<and> hierarchy_endpoint flaky_service ChildrenEP (formatHPOId id_nerv) (Some 100) None =
       Inr ([ref_phys, ref_morph], 200)
   \<and> fst (getHPOTermStats flaky_service (Some id_nerv)) =
       Inr \<lparr>content_text =
              lit ''**Statistics for HP:0000707:**'' @ nl @ nl
              @ lit ''**Name:** Abnormality of the nervous system'' @ nl @ nl
              @ lit ''**Hierarchy Statistics:**'' @ nl
              @ lit ''  '' @ glyph_bullet @ lit '' Ancestors: 2'' @ nl
              @ lit ''  '' @ glyph_bullet @ lit '' Direct Parents: 1'' @ nl
              @ lit ''  '' @ glyph_bullet @ lit '' Direct Children: 2'' @ nl
              @ lit ''  '' @ glyph_bullet @ lit '' All Descendants: 0'' @ nl
              @ lit ''  '' @ glyph_bullet @ lit '' Depth from Root: 2'' @ nl @ nl
              @ lit ''**Term Properties:**'' @ nl
              @ lit ''  '' @ glyph_bullet @ lit '' Synonyms: 0'' @ nl
              @ lit ''  '' @ glyph_bullet @ lit '' Cross-references: 0'' @ nl
              @ lit ''  '' @ glyph_bullet @ lit '' Alternative IDs: 0'' @ nl
              @ lit ''  '' @ glyph_bullet @ lit '' Obsolete: No'' @ nl,
            isError = False\<rparr>
   \<and> id_unknown \<noteq> []
   \<and> error (fst (getTerm flaky_service id_unknown)) = Some (lit ''HPO API Error (404): Not Found'')
   \<and> fst (getHPOTermStats flaky_service (Some id_unknown)) =
       Inr \<lparr>content_text = lit ''Error retrieving term HP:9999999: HPO API Error (404): Not Found'',
            isError = True\<rparr>
   \<and> id_surrogate \<noteq> []
   \<and> error (fst (getTerm flaky_service id_surrogate)) = Some (lit ''URI malformed'')
   \<and> fst (getHPOTermStats flaky_service (Some id_surrogate)) =
       Inr \<lparr>content_text = lit ''Error retrieving term '' @ id_surrogate @ lit '': URI malformed'',
            isError = True\<rparr>"
proof -
  have n: "id_nerv \<noteq> []" "id_unknown \<noteq> []" "id_surrogate \<noteq> []"
    by simp_all
  have e2: "error (fst (getTerm flaky_service id_unknown)) = Some (lit ''HPO API Error (404): Not Found'')"
    by (simp add: flaky_fetches not_found_message del: interceptor_message.simps)
  have e3: "error (fst (getTerm flaky_service id_surrogate)) = Some (lit ''URI malformed'')"
    by (simp add: flaky_fetches uri_error_message_def)
  have r1: "fst (getHPOTermStats flaky_service (Some id_nerv)) =
       Inr \<lparr>content_text =
              lit ''**Statistics for HP:0000707:**'' @ nl @ nl
              @ lit ''**Name:** Abnormality of the nervous system'' @ nl @ nl
              @ lit ''**Hierarchy Statistics:**'' @ nl
              @ lit ''  '' @ glyph_bullet @ lit '' Ancestors: 2'' @ nl
              @ lit ''  '' @ glyph_bullet @ lit '' Direct Parents: 1'' @ nl
              @ lit ''  '' @ glyph_bullet @ lit '' Direct Children: 2'' @ nl
              @ lit ''  '' @ glyph_bullet @ lit '' All Descendants: 0'' @ nl
              @ lit ''  '' @ glyph_bullet @ lit '' Depth from Root: 2'' @ nl @ nl
              @ lit ''**Term Properties:**'' @ nl
              @ lit ''  '' @ glyph_bullet @ lit '' Synonyms: 0'' @ nl
              @ lit ''  '' @ glyph_bullet @ lit '' Cross-references: 0'' @ nl
              @ lit ''  '' @ glyph_bullet @ lit '' Alternative IDs: 0'' @ nl
              @ lit ''  '' @ glyph_bullet @ lit '' Obsolete: No'' @ nl,
            isError = False\<rparr>"
  proof -
    have "fst (getHPOTermStats flaky_service (Some id_nerv)) =
        Inr \<lparr>content_text =
               stats_text id_nerv (mk_term id_nerv (lit ''Abnormality of the nervous system''))
                 [ref_phen, ref_all] [] [ref_phen] [ref_phys, ref_morph],
             isError = False\<rparr>"
      using stats_term_load_bearing [OF n(1), of flaky_service _
          "mk_term id_nerv (lit ''Abnormality of the nervous system'')" 200]
      by (simp add: flaky_fetches flaky_answers stats_text_def Let_def)
    then show ?thesis
      by (simp only: stats_text_nerv)
  qed
  have r2: "fst (getHPOTermStats flaky_service (Some id_unknown)) =
       Inr \<lparr>content_text = lit ''Error retrieving term HP:9999999: HPO API Error (404): Not Found'',
            isError = True\<rparr>"
  proof -
    have "fst (getHPOTermStats flaky_service (Some id_unknown)) =
       Inr \<lparr>content_text = lit ''Error retrieving term '' @ id_unknown @ lit '': ''
              @ lit ''HPO API Error (404): Not Found'', isError = True\<rparr>"
      using stats_term_load_bearing [OF n(2), of flaky_service "lit ''HPO API Error (404): Not Found''"] e2
      by simp
    then show ?thesis
      by (simp add: id_unknown_def lit_def)
  qed
  have r3: "fst (getHPOTermStats flaky_service (Some id_surrogate)) =
       Inr \<lparr>content_text = lit ''Error retrieving term '' @ id_surrogate @ lit '': URI malformed'',
            isError = True\<rparr>"
  proof -
    have "fst (getHPOTermStats flaky_service (Some id_surrogate)) =
       Inr \<lparr>content_text = lit ''Error retrieving term '' @ id_surrogate @ lit '': ''
              @ lit ''URI malformed'', isError = True\<rparr>"
      using stats_term_load_bearing [OF n(3), of flaky_service "lit ''URI malformed''"] e3
      by simp
    then show ?thesis
      by (simp add: lit_def)
  qed
  show ?thesis
    using n e2 e3 r1 r2 r3 by (simp add: flaky_fetches flaky_answers)
qed



section \<open>The relationship comparator\<close>

lemma short_ids_formatted [simp]:
  "formatHPOId (lit ''12638'') = id_phys" "formatHPOId (lit ''707'') = id_nerv"
  by (simp_all add: formatHPOId_def startsWith_def all_digits_def is_digit_def padStart0_def
      demo_ids lit_def eval_nat_numeral)

lemma demo_fetches:
  "fst (getTerm demo_service id_phys) =
     \<lparr>data = Some (mk_term id_phys (lit ''Abnormal nervous system physiology'')),
       error = None, status = 200\<rparr>"
  "fst (getTerm demo_service id_nerv) =
     \<lparr>data = Some (mk_term id_nerv (lit ''Abnormality of the nervous system'')),
       error = None, status = 200\<rparr>"
  "fst (getTerm demo_service id_morph) =
     \<lparr>data = Some (mk_term id_morph (lit ''Abnormal nervous system morphology'')),
       error = None, status = 200\<rparr>"
  "fst (getTerm demo_service (lit ''12638'')) =
     \<lparr>data = Some (mk_term id_phys (lit ''Abnormal nervous system physiology'')),
       error = None, status = 200\<rparr>"
  "fst (getTerm demo_service (lit ''707'')) =
     \<lparr>data = Some (mk_term id_nerv (lit ''Abnormality of the nervous system'')),
       error = None, status = 200\<rparr>"
  "fst (getTerm demo_service id_unknown) =
     \<lparr>data = None, error = Some (interceptor_message (ErrorResponse 404 (lit ''Not Found''))),
       status = 500\<rparr>"
  "fst (getTerm demo_service id_surrogate) =
     \<lparr>data = None, error = Some uri_error_message, status = 500\<rparr>"
  by (simp_all add: demo_service_def service_getTerm_Some service_getTerm_None getTerm_malformed
      del: interceptor_message.simps)

lemma demo_closures_fetched:
  "fst (getAncestors demo_service \<lparr>hp_id = id_phys, hp_max = Some 200, hp_offset = Some 0\<rparr>) =
     \<lparr>data = Some [ref_nerv, ref_phen, ref_all], error = None, status = 200\<rparr>"
  "fst (getAncestors demo_service \<lparr>hp_id = id_morph, hp_max = Some 200, hp_offset = Some 0\<rparr>) =
     \<lparr>data = Some [ref_nerv, ref_phen, ref_all], error = None, status = 200\<rparr>"
  "fst (getAncestors demo_service \<lparr>hp_id = id_nerv, hp_max = Some 200, hp_offset = Some 0\<rparr>) =
     \<lparr>data = Some [ref_phen, ref_all], error = None, status = 200\<rparr>"
  "fst (getAncestors demo_service \<lparr>hp_id = lit ''12638'', hp_max = Some 200, hp_offset = Some 0\<rparr>) =
     \<lparr>data = Some [ref_nerv, ref_phen, ref_all], error = None, status = 200\<rparr>"
  "fst (getAncestors demo_service \<lparr>hp_id = lit ''707'', hp_max = Some 200, hp_offset = Some 0\<rparr>) =
     \<lparr>data = Some [ref_phen, ref_all], error = None, status = 200\<rparr>"
  by (simp_all add: demo_service_def getAncestors_def demo_closures_def paged_all
      service_hierarchy_Inr [where full = "[ref_nerv, ref_phen, ref_all]"]
      service_hierarchy_Inr [where full = "[ref_phen, ref_all]"])

text \<open>
  The verdict of the handler when both term fetches and both ancestor fetches succeed.
  It is decided by the first test that holds, and the ids tested are the two arguments
  as they were passed: the second argument occurs among the ids of the first term's
  ancestors; else the first argument occurs among the ids of the second term's
  ancestors; else some ancestor of the second term has its id among those of the first;
  else no direct relationship.
\<close>

lemma compare_verdict_of_arguments:
  assumes "term1 \<noteq> []" and "term2 \<noteq> []"
    and "fst (getTerm r term1) = \<lparr>data = Some t1, error = None, status = st1\<rparr>"
    and "fst (getTerm r term2) = \<lparr>data = Some t2, error = None, status = st2\<rparr>"
    and "fst (getAncestors r \<lparr>hp_id = term1, hp_max = Some 200, hp_offset = Some 0\<rparr>) =
           \<lparr>data = Some ancestors1, error = None, status = st3\<rparr>"
    and "fst (getAncestors r \<lparr>hp_id = term2, hp_max = Some 200, hp_offset = Some 0\<rparr>) =
           \<lparr>data = Some ancestors2, error = None, status = st4\<rparr>"
  shows "fst (compareHPOTerms r (Some term1) (Some term2)) =
           Inr \<lparr>content_text =
                  lit ''**Comparison of HPO Terms:**'' @ nl @ nl
                  @ lit ''**Term 1:** '' @ term1 @ lit '': '' @ t_name t1 @ nl
                  @ lit ''**Term 2:** '' @ term2 @ lit '': '' @ t_name t2 @ nl @ nl
                  @ lit ''**Relationship:** ''
                  @ (if term2 \<in> s_id ` set ancestors1
                       then term1 @ lit '' is a descendant of '' @ term2
                     else if term1 \<in> s_id ` set ancestors2
                       then term2 @ lit '' is a descendant of '' @ term1
                     else if {a \<in> set ancestors2. s_id a \<in> s_id ` set ancestors1} \<noteq> {}
                       then lit ''Related through common ancestors''
                     else lit ''No direct relationship'')
                  @ nl @ nl
                  @ common_section (filter (\<lambda>a. s_id a \<in> s_id ` set ancestors1) ancestors2),
                isError = False\<rparr>"
proof -
  have "fst (compareHPOTerms r (Some term1) (Some term2)) =
      Inr \<lparr>content_text = compare_text term1 term2 (t_name t1) (t_name t2)
              (relationship term1 term2 ancestors1 ancestors2)
              (commonAncestors ancestors1 ancestors2), isError = False\<rparr>"
    using assms(3-6) by (simp add: compare_unfold [OF assms(1,2)])
  moreover have "relationship_text term1 term2 (relationship term1 term2 ancestors1 ancestors2) =
      (if term2 \<in> s_id ` set ancestors1
         then term1 @ lit '' is a descendant of '' @ term2
       else if term1 \<in> s_id ` set ancestors2
         then term2 @ lit '' is a descendant of '' @ term1
       else if {a \<in> set ancestors2. s_id a \<in> s_id ` set ancestors1} \<noteq> {}
         then lit ''Related through common ancestors''
       else lit ''No direct relationship'')"
    unfolding relationship_sets by (simp only: relationship_text.simps if_distrib [of "relationship_text term1 term2"])
  moreover have "commonAncestors ancestors1 ancestors2 =
      filter (\<lambda>a. s_id a \<in> s_id ` set ancestors1) ancestors2"
    by (simp add: commonAncestors_def)
  ultimately show ?thesis
    by (simp only: compare_text_def)
qed

text \<open>
  For two ids in canonical form, of which the second is the nearest ancestor of the
  first, the verdict is that the first is a descendant of the second, although the two
  terms have common ancestors as well.
\<close>

lemma compare_canonical_ids:
  "fst (compareHPOTerms demo_service (Some id_phys) (Some id_nerv)) =
     Inr \<lparr>content_text =
       lit ''**Comparison of HPO Terms:**'' @ nl @ nl
       @ lit ''**Term 1:** HP:0012638: Abnormal nervous system physiology'' @ nl
       @ lit ''**Term 2:** HP:0000707: Abnormality of the nervous system'' @ nl @ nl
       @ lit ''**Relationship:** HP:0012638 is a descendant of HP:0000707'' @ nl @ nl
       @ lit ''**Common Ancestors (2):**'' @ nl
       @ lit ''  '' @ glyph_bullet @ lit '' HP:0000118: Phenotypic abnormality'' @ nl
       @ lit ''  '' @ glyph_bullet @ lit '' HP:0000001: All'' @ nl,
          isError = False\<rparr>"
proof -
  have n: "id_phys \<noteq> []" "id_nerv \<noteq> []"
    by simp_all
  have "fst (compareHPOTerms demo_service (Some id_phys) (Some id_nerv)) =
      Inr \<lparr>content_text = compare_text id_phys id_nerv (lit ''Abnormal nervous system physiology'')
             (lit ''Abnormality of the nervous system'') FirstIsDescendantOfSecond [ref_phen, ref_all],
           isError = False\<rparr>"
    by (simp add: compare_unfold [OF n] demo_fetches demo_closures_fetched relationship_def
        commonAncestors_def mk_term_def demo_refs_defs)
  then show ?thesis
    by (simp add: compare_text_def common_section_def demo_refs_defs demo_ids text_defs
        nat_to_string.simps)
qed

text \<open>
  Claim C1. The claim holds of the arguments as they are passed, and fails of the terms
  they name. The client formats an id before it sends a request, so the short forms
  \<^verbatim>\<open>12638\<close> and \<^verbatim>\<open>707\<close> fetch the terms \<^verbatim>\<open>HP:0012638\<close> and \<^verbatim>\<open>HP:0000707\<close> and their
  ancestors; the id of the second term is the first entry of the first term's
  ancestors. The handler tests the ancestors' ids against the argument \<^verbatim>\<open>707\<close>, finds
  no match, and reports that the terms are related through common ancestors, where the
  claim asks for the verdict that the first is a descendant of the second.
\<close>

theorem compare_short_ids_verdict:
  "fst (getTerm demo_service (lit ''12638'')) =
     \<lparr>data = Some (mk_term id_phys (lit ''Abnormal nervous system physiology'')),
       error = None, status = 200\<rparr>
   \<and> fst (getTerm demo_service (lit ''707'')) =
     \<lparr>data = Some (mk_term id_nerv (lit ''Abnormality of the nervous system'')),
       error = None, status = 200\<rparr>
   \<and> fst (getAncestors demo_service \<lparr>hp_id = lit ''12638'', hp_max = Some 200, hp_offset = Some 0\<rparr>) =
     \<lparr>data = Some [ref_nerv, ref_phen, ref_all], error = None, status = 200\<rparr>
   \<and> fst (getAncestors demo_service \<lparr>hp_id = lit ''707'', hp_max = Some 200, hp_offset = Some 0\<rparr>) =
     \<lparr>data = Some [ref_phen, ref_all], error = None, status = 200\<rparr>
   \<and> t_id (mk_term id_nerv (lit ''Abnormality of the nervous system'')) = lit ''HP:0000707''
   \<and> s_id ref_nerv = lit ''HP:0000707''
   \<and> fst (compareHPOTerms demo_service (Some (lit ''12638'')) (Some (lit ''707''))) =
       Inr \<lparr>content_text =
              lit ''**Comparison of HPO Terms:**'' @ nl @ nl
              @ lit ''**Term 1:** 12638: Abnormal nervous system physiology'' @ nl
              @ lit ''**Term 2:** 707: Abnormality of the nervous system'' @ nl @ nl
              @ lit ''**Relationship:** Related through common ancestors'' @ nl @ nl
              @ lit ''**Common Ancestors (2):**'' @ nl
              @ lit ''  '' @ glyph_bullet @ lit '' HP:0000118: Phenotypic abnormality'' @ nl
              @ lit ''  '' @ glyph_bullet @ lit '' HP:0000001: All'' @ nl,
            isError = False\<rparr>"
proof -
  have n: "lit ''12638'' \<noteq> []" "lit ''707'' \<noteq> []"
    by (simp_all add: lit_def)
  have i: "id_nerv \<noteq> lit ''707''" "id_phen \<noteq> lit ''707''" "id_all \<noteq> lit ''707''"
    "id_phen \<noteq> lit ''12638''" "id_all \<noteq> lit ''12638''"
    by (simp_all add: demo_ids lit_def)
  have "fst (compareHPOTerms demo_service (Some (lit ''12638'')) (Some (lit ''707''))) =
      Inr \<lparr>content_text = compare_text (lit ''12638'') (lit ''707'')
             (lit ''Abnormal nervous system physiology'') (lit ''Abnormality of the nervous system'')
             RelatedThroughCommonAncestors [ref_phen, ref_all],
           isError = False\<rparr>"
    using i
    by (simp add: compare_unfold [OF n] demo_fetches demo_closures_fetched relationship_def
        commonAncestors_def mk_term_def demo_refs_defs)
  then have "fst (compareHPOTerms demo_service (Some (lit ''12638'')) (Some (lit ''707''))) =
       Inr \<lparr>content_text =
              lit ''**Comparison of HPO Terms:**'' @ nl @ nl
              @ lit ''**Term 1:** 12638: Abnormal nervous system physiology'' @ nl
              @ lit ''**Term 2:** 707: Abnormality of the nervous system'' @ nl @ nl
              @ lit ''**Relationship:** Related through common ancestors'' @ nl @ nl
              @ lit ''**Common Ancestors (2):**'' @ nl
              @ lit ''  '' @ glyph_bullet @ lit '' HP:0000118: Phenotypic abnormality'' @ nl
              @ lit ''  '' @ glyph_bullet @ lit '' HP:0000001: All'' @ nl,
            isError = False\<rparr>"
    by (simp add: compare_text_def common_section_def demo_refs_defs demo_ids text_defs
        nat_to_string.simps)
  then show ?thesis
    by (simp add: demo_fetches demo_closures_fetched mk_term_def ref_nerv_def id_nerv_def)
qed

section \<open>Failures in the relationship comparator\<close>

lemma ancestors_down_fetches:
  "fst (getTerm ancestors_down_service id_phys) =
     \<lparr>data = Some (mk_term id_phys (lit ''Abnormal nervous system physiology'')),
       error = None, status = 200\<rparr>"
  "fst (getTerm ancestors_down_service id_morph) =
     \<lparr>data = Some (mk_term id_morph (lit ''Abnormal nervous system morphology'')),
       error = None, status = 200\<rparr>"
  by (simp_all add: ancestors_down_service_def service_getTerm_Some)

lemma ancestors_down_answers:
  "hierarchy_endpoint ancestors_down_service AncestorsEP id_phys (Some 200) None = Inl NoResponse"
  "hierarchy_endpoint ancestors_down_service AncestorsEP id_morph (Some 200) None =
     Inr ([ref_nerv, ref_phen, ref_all], 200)"
  by (simp_all add: ancestors_down_service_def service_def failing_at_def paged_all
      demo_closures_def)

text \<open>
  Claim C10. When both term fetches succeed and the ancestor request of either term
  fails, the handler still returns a comparison, without an error flag: the failed
  closure is read as the empty list, so no common ancestor is reported, and the verdict
  is decided on what is left, which is no direct relationship unless the other closure
  holds the other id. The result is the one obtained from the service that answers the
  failed request with an empty list, so nothing in it tells the failure.
\<close>

theorem compare_failed_closure_silent:
  assumes "term1 \<noteq> []" and "term2 \<noteq> []"
    and "fst (getTerm r term1) = \<lparr>data = Some t1, error = None, status = st1\<rparr>"
    and "fst (getTerm r term2) = \<lparr>data = Some t2, error = None, status = st2\<rparr>"
    and "isl (hierarchy_endpoint r AncestorsEP (formatHPOId term1) (Some 200) None)
         \<or> isl (hierarchy_endpoint r AncestorsEP (formatHPOId term2) (Some 200) None)"
  shows "fst (compareHPOTerms r (Some term1) (Some term2)) =
           Inr \<lparr>content_text =
                  lit ''**Comparison of HPO Terms:**'' @ nl @ nl
                  @ lit ''**Term 1:** '' @ term1 @ lit '': '' @ t_name t1 @ nl
                  @ lit ''**Term 2:** '' @ term2 @ lit '': '' @ t_name t2 @ nl @ nl
                  @ lit ''**Relationship:** ''
                  @ (if term2 \<in> s_id ` set (closure_or_empty
                          (hierarchy_endpoint r AncestorsEP (formatHPOId term1) (Some 200) None))
                       then term1 @ lit '' is a descendant of '' @ term2
                     else if term1 \<in> s_id ` set (closure_or_empty
                          (hierarchy_endpoint r AncestorsEP (formatHPOId term2) (Some 200) None))
                       then term2 @ lit '' is a descendant of '' @ term1
                     else lit ''No direct relationship'')
                  @ nl @ nl @ lit ''**Common Ancestors:** None found'' @ nl,
                isError = False\<rparr>
         \<and> fst (compareHPOTerms (answered_empty r) (Some term1) (Some term2)) =
             fst (compareHPOTerms r (Some term1) (Some term2))"
proof -
  let ?a1 = "hierarchy_endpoint r AncestorsEP (formatHPOId term1) (Some 200) None"
  let ?a2 = "hierarchy_endpoint r AncestorsEP (formatHPOId term2) (Some 200) None"
  have w: "\<not> uri_malformed (formatHPOId term1)" "\<not> uri_malformed (formatHPOId term2)"
    using assms(3,4) getTerm_ok [of r term1] getTerm_ok [of r term2] by simp_all
  have e: "closure_or_empty ?a1 = [] \<or> closure_or_empty ?a2 = []"
    using assms(5) by (cases ?a1; cases ?a2) auto
  have rel: "relationship term1 term2 (closure_or_empty ?a1) (closure_or_empty ?a2) =
      (if term2 \<in> s_id ` set (closure_or_empty ?a1) then FirstIsDescendantOfSecond
       else if term1 \<in> s_id ` set (closure_or_empty ?a2) then SecondIsDescendantOfFirst
       else NoDirectRelationship)"
    using e by (auto simp: relationship_sets)
  have com: "commonAncestors (closure_or_empty ?a1) (closure_or_empty ?a2) = []"
    using e by auto
  have "fst (compareHPOTerms r (Some term1) (Some term2)) =
      Inr \<lparr>content_text = compare_text term1 term2 (t_name t1) (t_name t2)
             (relationship term1 term2 (closure_or_empty ?a1) (closure_or_empty ?a2))
             (commonAncestors (closure_or_empty ?a1) (closure_or_empty ?a2)),
           isError = False\<rparr>"
    using assms(3,4) w
    by (simp add: compare_unfold [OF assms(1,2)] getAncestors_def hierarchy_call_data
        del: data_or_empty.simps)
  then have first: "fst (compareHPOTerms r (Some term1) (Some term2)) =
           Inr \<lparr>content_text =
                  lit ''**Comparison of HPO Terms:**'' @ nl @ nl
                  @ lit ''**Term 1:** '' @ term1 @ lit '': '' @ t_name t1 @ nl
                  @ lit ''**Term 2:** '' @ term2 @ lit '': '' @ t_name t2 @ nl @ nl
                  @ lit ''**Relationship:** ''
                  @ (if term2 \<in> s_id ` set (closure_or_empty
                          (hierarchy_endpoint r AncestorsEP (formatHPOId term1) (Some 200) None))
                       then term1 @ lit '' is a descendant of '' @ term2
                     else if term1 \<in> s_id ` set (closure_or_empty
                          (hierarchy_endpoint r AncestorsEP (formatHPOId term2) (Some 200) None))
                       then term2 @ lit '' is a descendant of '' @ term1
                     else lit ''No direct relationship'')
                  @ nl @ nl @ lit ''**Common Ancestors:** None found'' @ nl,
                isError = False\<rparr>"
    by (simp add: rel com compare_text_def common_section_def)
  have second: "fst (compareHPOTerms (answered_empty r) (Some term1) (Some term2)) =
      fst (compareHPOTerms r (Some term1) (Some term2))"
    by (simp add: compare_unfold [OF assms(1,2)] getTerm_answered_empty getAncestors_def
        data_answered_empty del: data_or_empty.simps)
  show ?thesis
    using first second by (rule conjI)
qed

theorem compare_failed_closure_silent_witness:
  "id_phys \<noteq> [] \<and> id_morph \<noteq> []
   \<and> fst (getTerm ancestors_down_service id_phys) =
       \<lparr>data = Some (mk_term id_phys (lit ''Abnormal nervous system physiology'')),
         error = None, status = 200\<rparr>
   \<and> fst (getTerm ancestors_down_service id_morph) =
       \<lparr>data = Some (mk_term id_morph (lit ''Abnormal nervous system morphology'')),
         error = None, status = 200\<rparr>
   \<and> isl (hierarchy_endpoint ancestors_down_service AncestorsEP (formatHPOId id_phys) (Some 200) None)
   \<and> fst (compareHPOTerms ancestors_down_service (Some id_phys) (Some id_morph)) =
       Inr \<lparr>content_text =
              lit ''**Comparison of HPO Terms:**'' @ nl @ nl
              @ lit ''**Term 1:** HP:0012638: Abnormal nervous system physiology'' @ nl
              @ lit ''**Term 2:** HP:0012639: Abnormal nervous system morphology'' @ nl @ nl
              @ lit ''**Relationship:** No direct relationship'' @ nl @ nl
              @ lit ''**Common Ancestors:** None found'' @ nl,
            isError = False\<rparr>
   \<and> fst (compareHPOTerms (answered_empty ancestors_down_service) (Some id_phys) (Some id_morph)) =
       fst (compareHPOTerms ancestors_down_service (Some id_phys) (Some id_morph))
   \<and> fst (compareHPOTerms demo_service (Some id_phys) (Some id_morph)) =
       Inr \<lparr>content_text =
              compare_text id_phys id_morph (lit ''Abnormal nervous system physiology'')
                (lit ''Abnormal nervous system morphology'')
                RelatedThroughCommonAncestors [ref_nerv, ref_phen, ref_all],
            isError = False\<rparr>"
proof -
  have n: "id_phys \<noteq> []" "id_morph \<noteq> []"
    by simp_all
  have a: "isl (hierarchy_endpoint ancestors_down_service AncestorsEP (formatHPOId id_phys) (Some 200) None)"
    by (simp add: ancestors_down_answers)
  have a': "isl (hierarchy_endpoint ancestors_down_service AncestorsEP (formatHPOId id_phys) (Some 200) None)
      \<or> isl (hierarchy_endpoint ancestors_down_service AncestorsEP (formatHPOId id_morph) (Some 200) None)"
    using a by simp
  note inst = compare_failed_closure_silent
    [OF n ancestors_down_fetches(1) ancestors_down_fetches(2) a']
  have r: "fst (compareHPOTerms ancestors_down_service (Some id_phys) (Some id_morph)) =
       Inr \<lparr>content_text =
              lit ''**Comparison of HPO Terms:**'' @ nl @ nl
              @ lit ''**Term 1:** HP:0012638: Abnormal nervous system physiology'' @ nl
              @ lit ''**Term 2:** HP:0012639: Abnormal nervous system morphology'' @ nl @ nl
              @ lit ''**Relationship:** No direct relationship'' @ nl @ nl
              @ lit ''**Common Ancestors:** None found'' @ nl,
            isError = False\<rparr>"
  proof -
    have "fst (compareHPOTerms ancestors_down_service (Some id_phys) (Some id_morph)) =
        Inr \<lparr>content_text =
               lit ''**Comparison of HPO Terms:**'' @ nl @ nl
               @ lit ''**Term 1:** '' @ id_phys @ lit '': ''
                 @ lit ''Abnormal nervous system physiology'' @ nl
               @ lit ''**Term 2:** '' @ id_morph @ lit '': ''
                 @ lit ''Abnormal nervous system morphology'' @ nl @ nl
               @ lit ''**Relationship:** '' @ lit ''No direct relationship''
               @ nl @ nl @ lit ''**Common Ancestors:** None found'' @ nl,
             isError = False\<rparr>"
      using inst by (simp add: ancestors_down_answers mk_term_def demo_refs_defs)
    then show ?thesis
      by (simp add: demo_ids lit_def)
  qed
  have same: "fst (compareHPOTerms (answered_empty ancestors_down_service) (Some id_phys) (Some id_morph)) =
       fst (compareHPOTerms ancestors_down_service (Some id_phys) (Some id_morph))"
    using inst by simp
  have full: "fst (compareHPOTerms demo_service (Some id_phys) (Some id_morph)) =
       Inr \<lparr>content_text =
              compare_text id_phys id_morph (lit ''Abnormal nervous system physiology'')
                (lit ''Abnormal nervous system morphology'')
                RelatedThroughCommonAncestors [ref_nerv, ref_phen, ref_all],
            isError = False\<rparr>"
    by (simp add: compare_unfold [OF n] demo_fetches demo_closures_fetched relationship_def
        commonAncestors_def mk_term_def demo_refs_defs)
  show ?thesis
    using n ancestors_down_fetches a r same full by (intro conjI)
qed

lemma patchy_answers:
  "term_endpoint patchy_service id_unknown = Inl (ErrorResponse 404 (lit ''Not Found''))"
  "term_endpoint patchy_service id_all = Inr (None, 200)"
  "term_endpoint patchy_service id_phen = Inr (Some (mk_term id_phen (lit ''Phenotypic abnormality'')), 200)"
  "term_endpoint patchy_service id_phys = Inl NoResponse"
  by (simp_all add: patchy_service_def)

lemma patchy_fetches:
  "getTerm patchy_service id_unknown =
     (\<lparr>data = None, error = Some (lit ''HPO API Error (404): Not Found''), status = 500\<rparr>,
      [Request TermEP id_unknown None None])"
  "getTerm patchy_service id_all =
     (\<lparr>data = None, error = None, status = 200\<rparr>, [Request TermEP id_all None None])"
  "getTerm patchy_service id_phen =
     (\<lparr>data = Some (mk_term id_phen (lit ''Phenotypic abnormality'')), error = None, status = 200\<rparr>,
      [Request TermEP id_phen None None])"
  "getTerm patchy_service id_phys =
     (\<lparr>data = None,
       error = Some (lit ''HPO API is not responding. Please check your internet connection.''),
       status = 500\<rparr>,
      [Request TermEP id_phys None None])"
  "getTerm patchy_service id_surrogate =
     (\<lparr>data = None, error = Some (lit ''URI malformed''), status = 500\<rparr>, [])"
  using not_found_message
  by (simp_all add: getTerm_def patchy_answers uri_error_message_def)

text \<open>
  Claim C7, as the specification states it: when both term fetches fail, the reported
  failure names both errors. It names the first only. With the first term answered by
  status 404 and the second by no response at all, the text of the result is the
  message of the first failure, and the message of the second does not occur in it.
\<close>

theorem compare_names_first_error_only:
  "term_endpoint patchy_service (formatHPOId id_unknown) = Inl (ErrorResponse 404 (lit ''Not Found''))
   \<and> term_endpoint patchy_service (formatHPOId id_phys) = Inl NoResponse
   \<and> fst (compareHPOTerms patchy_service (Some id_unknown) (Some id_phys)) =
       Inr \<lparr>content_text = lit ''Error retrieving terms: HPO API Error (404): Not Found'',
            isError = True\<rparr>
   \<and> interceptor_message NoResponse =
       lit ''HPO API is not responding. Please check your internet connection.''
   \<and> \<not> str_includes (lit ''Error retrieving terms: HPO API Error (404): Not Found'')
         (lit ''HPO API is not responding. Please check your internet connection.'')"
proof -
  have n: "id_unknown \<noteq> []" "id_phys \<noteq> []"
    by simp_all
  have r: "fst (compareHPOTerms patchy_service (Some id_unknown) (Some id_phys)) =
       Inr \<lparr>content_text = lit ''Error retrieving terms: '' @ lit ''HPO API Error (404): Not Found'',
            isError = True\<rparr>"
    by (simp add: compare_unfold [OF n] patchy_fetches or_opt_def truthy_def lit_def)
  have m: "lit ''Error retrieving terms: '' @ lit ''HPO API Error (404): Not Found''
      = lit ''Error retrieving terms: HPO API Error (404): Not Found''"
    by (simp add: lit_def)
  have i: "\<not> str_includes (lit ''Error retrieving terms: HPO API Error (404): Not Found'')
         (lit ''HPO API is not responding. Please check your internet connection.'')"
    by (simp add: lit_def)
  show ?thesis
    using r i m by (simp add: patchy_answers)
qed

text \<open>
  Claim C7, amended. When the first term fetch fails, the result is an error result
  that carries the message of that failure, whatever the second fetch did; when the
  first succeeds and the second fails, it carries the message of the second. When both
  succeed and a body is empty, the result says that one or both terms were not found,
  without an error flag. In all three cases no verdict is given, and the requests sent
  are the term requests alone: one for each of the two ids whose path could be built.
\<close>

theorem compare_term_failure:
  assumes "term1 \<noteq> []" and "term2 \<noteq> []"
  shows "(let sent = (\<lambda>i. if uri_malformed (formatHPOId i) then []
                          else [Request TermEP (formatHPOId i) None None]) in
          (error (fst (getTerm r term1)) = Some msg1 \<longrightarrow>
             compareHPOTerms r (Some term1) (Some term2) =
               (Inr \<lparr>content_text = lit ''Error retrieving terms: '' @ msg1, isError = True\<rparr>,
                sent term1 @ sent term2))
        \<and> (error (fst (getTerm r term1)) = None
           \<and> error (fst (getTerm r term2)) = Some msg2 \<longrightarrow>
             compareHPOTerms r (Some term1) (Some term2) =
               (Inr \<lparr>content_text = lit ''Error retrieving terms: '' @ msg2, isError = True\<rparr>,
                sent term1 @ sent term2))
        \<and> (error (fst (getTerm r term1)) = None
           \<and> error (fst (getTerm r term2)) = None
           \<and> (data (fst (getTerm r term1)) = None \<or> data (fst (getTerm r term2)) = None) \<longrightarrow>
             compareHPOTerms r (Some term1) (Some term2) =
               (Inr \<lparr>content_text = lit ''One or both terms not found: '' @ term1 @ lit '', '' @ term2,
                     isError = False\<rparr>,
                sent term1 @ sent term2)))"
proof -
  have t: "truthy_opt (error (fst (getTerm r i))) = (error (fst (getTerm r i)) \<noteq> None)" for i
    by (rule getTerm_error_truthy)
  show ?thesis
    unfolding Let_def
  proof (intro conjI impI)
    assume "error (fst (getTerm r term1)) = Some msg1"
    then show "compareHPOTerms r (Some term1) (Some term2) =
        (Inr \<lparr>content_text = lit ''Error retrieving terms: '' @ msg1, isError = True\<rparr>,
         (if uri_malformed (formatHPOId term1) then []
          else [Request TermEP (formatHPOId term1) None None])
         @ (if uri_malformed (formatHPOId term2) then []
            else [Request TermEP (formatHPOId term2) None None]))"
      using t [of term1]
      by (simp add: compare_unfold [OF assms] or_opt_def getTerm_requests)
  next
    assume "error (fst (getTerm r term1)) = None
        \<and> error (fst (getTerm r term2)) = Some msg2"
    then show "compareHPOTerms r (Some term1) (Some term2) =
        (Inr \<lparr>content_text = lit ''Error retrieving terms: '' @ msg2, isError = True\<rparr>,
         (if uri_malformed (formatHPOId term1) then []
          else [Request TermEP (formatHPOId term1) None None])
         @ (if uri_malformed (formatHPOId term2) then []
            else [Request TermEP (formatHPOId term2) None None]))"
      using t [of term2]
      by (simp add: compare_unfold [OF assms] or_opt_def getTerm_requests)
  next
    assume "error (fst (getTerm r term1)) = None
        \<and> error (fst (getTerm r term2)) = None
        \<and> (data (fst (getTerm r term1)) = None \<or> data (fst (getTerm r term2)) = None)"
    then show "compareHPOTerms r (Some term1) (Some term2) =
        (Inr \<lparr>content_text = lit ''One or both terms not found: '' @ term1 @ lit '', '' @ term2,
              isError = False\<rparr>,
         (if uri_malformed (formatHPOId term1) then []
          else [Request TermEP (formatHPOId term1) None None])
         @ (if uri_malformed (formatHPOId term2) then []
            else [Request TermEP (formatHPOId term2) None None]))"
      by (auto simp: compare_unfold [OF assms] getTerm_requests)
  qed
qed

theorem compare_term_failure_witness:
  "id_unknown \<noteq> [] \<and> id_phys \<noteq> [] \<and> id_phen \<noteq> [] \<and> id_all \<noteq> [] \<and> id_surrogate \<noteq> []
   \<and> error (fst (getTerm patchy_service id_unknown)) = Some (lit ''HPO API Error (404): Not Found'')
   \<and> error (fst (getTerm patchy_service id_phys)) =
       Some (lit ''HPO API is not responding. Please check your internet connection.'')
   \<and> error (fst (getTerm patchy_service id_surrogate)) = Some (lit ''URI malformed'')
   \<and> error (fst (getTerm patchy_service id_phen)) = None
   \<and> error (fst (getTerm patchy_service id_all)) = None
   \<and> data (fst (getTerm patchy_service id_all)) = None
   \<and> compareHPOTerms patchy_service (Some id_unknown) (Some id_phys) =
       (Inr \<lparr>content_text = lit ''Error retrieving terms: '' @ lit ''HPO API Error (404): Not Found'',
             isError = True\<rparr>,
        [Request TermEP id_unknown None None, Request TermEP id_phys None None])
   \<and> compareHPOTerms patchy_service (Some id_phen) (Some id_phys) =
       (Inr \<lparr>content_text = lit ''Error retrieving terms: ''
               @ lit ''HPO API is not responding. Please check your internet connection.'',
             isError = True\<rparr>,
        [Request TermEP id_phen None None, Request TermEP id_phys None None])
   \<and> compareHPOTerms patchy_service (Some id_surrogate) (Some id_phen) =
       (Inr \<lparr>content_text = lit ''Error retrieving terms: '' @ lit ''URI malformed'',
             isError = True\<rparr>,
        [Request TermEP id_phen None None])
   \<and> compareHPOTerms patchy_service (Some id_phen) (Some id_all) =
       (Inr \<lparr>content_text = lit ''One or both terms not found: '' @ id_phen @ lit '', '' @ id_all,
             isError = False\<rparr>,
        [Request TermEP id_phen None None, Request TermEP id_all None None])"
proof -
  have n: "id_unknown \<noteq> []" "id_phys \<noteq> []" "id_phen \<noteq> []" "id_all \<noteq> []" "id_surrogate \<noteq> []"
    by simp_all
  have r1: "compareHPOTerms patchy_service (Some id_unknown) (Some id_phys) =
       (Inr \<lparr>content_text = lit ''Error retrieving terms: '' @ lit ''HPO API Error (404): Not Found'',
             isError = True\<rparr>,
        [Request TermEP id_unknown None None, Request TermEP id_phys None None])"
    using compare_term_failure [OF n(1) n(2), of patchy_service "lit ''HPO API Error (404): Not Found''"]
    by (simp add: patchy_fetches Let_def)
  have r2: "compareHPOTerms patchy_service (Some id_phen) (Some id_phys) =
       (Inr \<lparr>content_text = lit ''Error retrieving terms: ''
               @ lit ''HPO API is not responding. Please check your internet connection.'',
             isError = True\<rparr>,
        [Request TermEP id_phen None None, Request TermEP id_phys None None])"
    using compare_term_failure [OF n(3) n(2), of patchy_service _
        "lit ''HPO API is not responding. Please check your internet connection.''"]
    by (simp add: patchy_fetches Let_def)
  have r3: "compareHPOTerms patchy_service (Some id_surrogate) (Some id_phen) =
       (Inr \<lparr>content_text = lit ''Error retrieving terms: '' @ lit ''URI malformed'',
             isError = True\<rparr>,
        [Request TermEP id_phen None None])"
    using compare_term_failure [OF n(5) n(3), of patchy_service "lit ''URI malformed''"]
    by (simp add: patchy_fetches Let_def)
  have r4: "compareHPOTerms patchy_service (Some id_phen) (Some id_all) =
       (Inr \<lparr>content_text = lit ''One or both terms not found: '' @ id_phen @ lit '', '' @ id_all,
             isError = False\<rparr>,
        [Request TermEP id_phen None None, Request TermEP id_all None None])"
    using compare_term_failure [OF n(3) n(4), of patchy_service]
    by (simp add: patchy_fetches Let_def)
  show ?thesis
    using n r1 r2 r3 r4 by (simp add: patchy_fetches)
qed

section \<open>The batch retrieval coordinator\<close>

lemma batch_fetch_outcome:
  "fst (batch_fetch r ident) =
     \<lparr>b_id = ident, success = (error (fst (getTerm r ident)) = None),
       b_data = data (fst (getTerm r ident)), b_error = error (fst (getTerm r ident))\<rparr>"
  using getTerm_error_truthy [of r ident] by (simp add: batch_fetch_def split_beta)

lemma batch_fetch_requests:
  "snd (batch_fetch r ident) =
     (if uri_malformed (formatHPOId ident) then []
      else [Request TermEP (formatHPOId ident) None None])"
  by (simp add: batch_fetch_def split_beta getTerm_requests)

lemma batch_fetch_local:
  "term_endpoint r' (formatHPOId ident) = term_endpoint r (formatHPOId ident) \<Longrightarrow>
   batch_fetch r' ident = batch_fetch r ident"
  by (simp add: batch_fetch_def getTerm_def Let_def)

lemma filter_outcomes:
  "map b_id (filter P (batch_results r ids)) = filter (\<lambda>ident. P (fst (batch_fetch r ident))) ids"
  by (induction ids) (simp_all add: batch_results_def batch_fetch_outcome)

lemma batch_results_demo:
  "batch_results demo_service [id_phys, id_unknown, id_morph] =
     [\<lparr>b_id = id_phys, success = True,
        b_data = Some (mk_term id_phys (lit ''Abnormal nervous system physiology'')),
        b_error = None\<rparr>,
      \<lparr>b_id = id_unknown, success = False, b_data = None,
        b_error = Some (lit ''HPO API Error (404): Not Found'')\<rparr>,
      \<lparr>b_id = id_morph, success = True,
        b_data = Some (mk_term id_morph (lit ''Abnormal nervous system morphology'')),
        b_error = None\<rparr>]"
  "batch_results demo_service [id_phys, id_surrogate] =
     [\<lparr>b_id = id_phys, success = True,
        b_data = Some (mk_term id_phys (lit ''Abnormal nervous system physiology'')),
        b_error = None\<rparr>,
      \<lparr>b_id = id_surrogate, success = False, b_data = None,
        b_error = Some (lit ''URI malformed'')\<rparr>]"
  using not_found_message
  by (simp_all add: batch_results_def batch_fetch_outcome demo_fetches uri_error_message_def
      del: interceptor_message.simps)

lemma batch_text_demo:
  "batch_text 3
     [\<lparr>b_id = id_phys, success = True,
        b_data = Some (mk_term id_phys (lit ''Abnormal nervous system physiology'')),
        b_error = None\<rparr>,
      \<lparr>b_id = id_morph, success = True,
        b_data = Some (mk_term id_morph (lit ''Abnormal nervous system morphology'')),
        b_error = None\<rparr>]
     [\<lparr>b_id = id_unknown, success = False, b_data = None,
        b_error = Some (lit ''HPO API Error (404): Not Found'')\<rparr>] =
   lit ''**Batch Processing Results:**'' @ nl @ nl
              @ lit ''**Summary:** 2/3 terms retrieved successfully'' @ nl @ nl
              @ lit ''**Successfully Retrieved Terms:**'' @ nl
              @ glyph_bullet @ lit '' HP:0012638: Abnormal nervous system physiology'' @ nl @ nl
              @ glyph_bullet @ lit '' HP:0012639: Abnormal nervous system morphology'' @ nl @ nl
              @ lit ''**Failed Terms:**'' @ nl
              @ glyph_bullet @ lit '' HP:9999999: HPO API Error (404): Not Found'' @ nl"
  "batch_text 2
     [\<lparr>b_id = id_phys, success = True,
        b_data = Some (mk_term id_phys (lit ''Abnormal nervous system physiology'')),
        b_error = None\<rparr>]
     [\<lparr>b_id = id_surrogate, success = False, b_data = None,
        b_error = Some (lit ''URI malformed'')\<rparr>] =
   lit ''**Batch Processing Results:**'' @ nl @ nl
              @ lit ''**Summary:** 1/2 terms retrieved successfully'' @ nl @ nl
              @ lit ''**Successfully Retrieved Terms:**'' @ nl
              @ glyph_bullet @ lit '' HP:0012638: Abnormal nervous system physiology'' @ nl @ nl
              @ lit ''**Failed Terms:**'' @ nl
              @ glyph_bullet @ lit '' '' @ id_surrogate @ lit '': URI malformed'' @ nl"
  by (simp_all add: batch_text_def successful_entry_def failed_entry_def mk_term_def truthy_def
      demo_ids id_unknown_def text_defs nat_to_string.simps)

text \<open>
  Claim C5. For a list of one to twenty ids, the handler fetches each id on its own, in
  the order of the list, and keeps one outcome per id in that order: the id, whether
  its fetch succeeded, and the data or the error of that fetch. The outcome at a
  position depends on the answer to that id's own request only: a service that answers
  that request alike gives the same outcome there, whatever it answers to the others.
  The successes are the outcomes of the ids whose fetch did not fail and the failures
  those of the ids whose fetch failed, each in the order of the input list. An id whose
  request path cannot be built fails without a request, and the others are fetched all
  the same.
\<close>

theorem batch_partition:
  assumes "ids \<noteq> []" and "length ids \<le> 20"
  shows "fst (batchGetHPOTerms r (Some ids)) =
           Inr \<lparr>content_text = batch_text (length ids) (successful (batch_results r ids))
                                  (failed (batch_results r ids)),
                isError = False\<rparr>
       \<and> snd (batchGetHPOTerms r (Some ids)) =
             concat (map (\<lambda>ident. if uri_malformed (formatHPOId ident) then []
                                   else [Request TermEP (formatHPOId ident) None None]) ids)
       \<and> batch_results r ids =
             map (\<lambda>ident. \<lparr>b_id = ident, success = (error (fst (getTerm r ident)) = None),
                             b_data = data (fst (getTerm r ident)),
                             b_error = error (fst (getTerm r ident))\<rparr>) ids
       \<and> map b_id (batch_results r ids) = ids
       \<and> (\<forall>k < length ids. \<forall>r' :: Remote.
             term_endpoint r' (formatHPOId (ids ! k)) = term_endpoint r (formatHPOId (ids ! k))
             \<longrightarrow> batch_results r' ids ! k = batch_results r ids ! k)
       \<and> map b_id (successful (batch_results r ids)) =
             filter (\<lambda>ident. error (fst (getTerm r ident)) = None) ids
       \<and> map b_id (failed (batch_results r ids)) =
             filter (\<lambda>ident. error (fst (getTerm r ident)) \<noteq> None) ids"
proof (intro conjI allI impI)
  show "fst (batchGetHPOTerms r (Some ids)) =
      Inr \<lparr>content_text = batch_text (length ids) (successful (batch_results r ids))
                             (failed (batch_results r ids)),
           isError = False\<rparr>"
    using assms by (simp add: batchGetHPOTerms_def Let_def)
next
  show "snd (batchGetHPOTerms r (Some ids)) =
      concat (map (\<lambda>ident. if uri_malformed (formatHPOId ident) then []
                            else [Request TermEP (formatHPOId ident) None None]) ids)"
    using assms by (simp add: batchGetHPOTerms_def Let_def batch_requests_def batch_fetch_requests)
next
  show "batch_results r ids =
      map (\<lambda>ident. \<lparr>b_id = ident, success = (error (fst (getTerm r ident)) = None),
                      b_data = data (fst (getTerm r ident)),
                      b_error = error (fst (getTerm r ident))\<rparr>) ids"
    by (simp add: batch_results_def batch_fetch_outcome)
next
  show "map b_id (batch_results r ids) = ids"
    by (simp add: batch_results_def batch_fetch_outcome comp_def)
next
  fix k and r' :: Remote
  assume "k < length ids"
    and "term_endpoint r' (formatHPOId (ids ! k)) = term_endpoint r (formatHPOId (ids ! k))"
  then show "batch_results r' ids ! k = batch_results r ids ! k"
    using batch_fetch_local [of r' "ids ! k" r] by (simp add: batch_results_def)
next
  show "map b_id (successful (batch_results r ids)) =
      filter (\<lambda>ident. error (fst (getTerm r ident)) = None) ids"
    by (simp only: successful_def filter_outcomes) (simp add: batch_fetch_outcome)
next
  show "map b_id (failed (batch_results r ids)) =
      filter (\<lambda>ident. error (fst (getTerm r ident)) \<noteq> None) ids"
    by (simp only: failed_def filter_outcomes) (simp add: batch_fetch_outcome)
qed

theorem batch_partition_witness:
  "[id_phys, id_unknown, id_morph] \<noteq> [] \<and> length [id_phys, id_unknown, id_morph] \<le> 20
   \<and> error (fst (getTerm demo_service id_unknown)) \<noteq> None
   \<and> error (fst (getTerm demo_service id_phys)) = None
   \<and> error (fst (getTerm demo_service id_morph)) = None
   \<and> fst (batchGetHPOTerms demo_service (Some [id_phys, id_unknown, id_morph])) =
       Inr \<lparr>content_text =
              lit ''**Batch Processing Results:**'' @ nl @ nl
              @ lit ''**Summary:** 2/3 terms retrieved successfully'' @ nl @ nl
              @ lit ''**Successfully Retrieved Terms:**'' @ nl
              @ glyph_bullet @ lit '' HP:0012638: Abnormal nervous system physiology'' @ nl @ nl
              @ glyph_bullet @ lit '' HP:0012639: Abnormal nervous system morphology'' @ nl @ nl
              @ lit ''**Failed Terms:**'' @ nl
              @ glyph_bullet @ lit '' HP:9999999: HPO API Error (404): Not Found'' @ nl,
            isError = False\<rparr>
   \<and> snd (batchGetHPOTerms demo_service (Some [id_phys, id_unknown, id_morph])) =
       [Request TermEP id_phys None None, Request TermEP id_unknown None None,
        Request TermEP id_morph None None]
   \<and> map b_id (successful (batch_results demo_service [id_phys, id_unknown, id_morph])) =
       [id_phys, id_morph]
   \<and> map b_id (failed (batch_results demo_service [id_phys, id_unknown, id_morph])) = [id_unknown]
   \<and> (1::nat) < length [id_phys, id_unknown, id_morph]
   \<and> term_endpoint patchy_service (formatHPOId ([id_phys, id_unknown, id_morph] ! 1)) =
       term_endpoint demo_service (formatHPOId ([id_phys, id_unknown, id_morph] ! 1))
   \<and> batch_results patchy_service [id_phys, id_unknown, id_morph] ! 1 =
       batch_results demo_service [id_phys, id_unknown, id_morph] ! 1
   \<and> [id_phys, id_surrogate] \<noteq> [] \<and> length [id_phys, id_surrogate] \<le> 20
   \<and> error (fst (getTerm demo_service id_surrogate)) \<noteq> None
   \<and> fst (batchGetHPOTerms demo_service (Some [id_phys, id_surrogate])) =
       Inr \<lparr>content_text =
              lit ''**Batch Processing Results:**'' @ nl @ nl
              @ lit ''**Summary:** 1/2 terms retrieved successfully'' @ nl @ nl
              @ lit ''**Successfully Retrieved Terms:**'' @ nl
              @ glyph_bullet @ lit '' HP:0012638: Abnormal nervous system physiology'' @ nl @ nl
              @ lit ''**Failed Terms:**'' @ nl
              @ glyph_bullet @ lit '' '' @ id_surrogate @ lit '': URI malformed'' @ nl,
            isError = False\<rparr>
   \<and> snd (batchGetHPOTerms demo_service (Some [id_phys, id_surrogate])) =
       [Request TermEP id_phys None None]
   \<and> map b_id (successful (batch_results demo_service [id_phys, id_surrogate])) = [id_phys]
   \<and> map b_id (failed (batch_results demo_service [id_phys, id_surrogate])) = [id_surrogate]"
proof -
  have h: "[id_phys, id_unknown, id_morph] \<noteq> []" "length [id_phys, id_unknown, id_morph] \<le> 20"
    by simp_all
  have h': "[id_phys, id_surrogate] \<noteq> []" "length [id_phys, id_surrogate] \<le> 20"
    by simp_all
  note inst = batch_partition [OF h, of demo_service]
  note inst' = batch_partition [OF h', of demo_service]
  have a: "error (fst (getTerm demo_service id_unknown)) \<noteq> None"
    "error (fst (getTerm demo_service id_phys)) = None"
    "error (fst (getTerm demo_service id_morph)) = None"
    "error (fst (getTerm demo_service id_surrogate)) \<noteq> None"
    by (simp_all add: demo_fetches del: interceptor_message.simps)
  have out: "fst (batchGetHPOTerms demo_service (Some [id_phys, id_unknown, id_morph])) =
       Inr \<lparr>content_text =
              lit ''**Batch Processing Results:**'' @ nl @ nl
              @ lit ''**Summary:** 2/3 terms retrieved successfully'' @ nl @ nl
              @ lit ''**Successfully Retrieved Terms:**'' @ nl
              @ glyph_bullet @ lit '' HP:0012638: Abnormal nervous system physiology'' @ nl @ nl
              @ glyph_bullet @ lit '' HP:0012639: Abnormal nervous system morphology'' @ nl @ nl
              @ lit ''**Failed Terms:**'' @ nl
              @ glyph_bullet @ lit '' HP:9999999: HPO API Error (404): Not Found'' @ nl,
            isError = False\<rparr>"
  proof -
    have c1: "fst (batchGetHPOTerms demo_service (Some [id_phys, id_unknown, id_morph])) =
        Inr \<lparr>content_text = batch_text (length [id_phys, id_unknown, id_morph])
                (successful (batch_results demo_service [id_phys, id_unknown, id_morph]))
                (failed (batch_results demo_service [id_phys, id_unknown, id_morph])),
              isError = False\<rparr>"
      using inst by (rule conjunct1)
    have len: "length [id_phys, id_unknown, id_morph] = 3"
      by simp
    have sf: "successful (batch_results demo_service [id_phys, id_unknown, id_morph]) =
        [\<lparr>b_id = id_phys, success = True,
        b_data = Some (mk_term id_phys (lit ''Abnormal nervous system physiology'')),
        b_error = None\<rparr>,
         \<lparr>b_id = id_morph, success = True,
        b_data = Some (mk_term id_morph (lit ''Abnormal nervous system morphology'')),
        b_error = None\<rparr>]"
      "failed (batch_results demo_service [id_phys, id_unknown, id_morph]) =
        [\<lparr>b_id = id_unknown, success = False, b_data = None,
        b_error = Some (lit ''HPO API Error (404): Not Found'')\<rparr>]"
      by (simp_all add: batch_results_demo successful_def failed_def)
    show ?thesis
      using c1 by (simp only: len sf batch_text_demo)
  qed
  have out': "fst (batchGetHPOTerms demo_service (Some [id_phys, id_surrogate])) =
       Inr \<lparr>content_text =
              lit ''**Batch Processing Results:**'' @ nl @ nl
              @ lit ''**Summary:** 1/2 terms retrieved successfully'' @ nl @ nl
              @ lit ''**Successfully Retrieved Terms:**'' @ nl
              @ glyph_bullet @ lit '' HP:0012638: Abnormal nervous system physiology'' @ nl @ nl
              @ lit ''**Failed Terms:**'' @ nl
              @ glyph_bullet @ lit '' '' @ id_surrogate @ lit '': URI malformed'' @ nl,
            isError = False\<rparr>"
  proof -
    have c1: "fst (batchGetHPOTerms demo_service (Some [id_phys, id_surrogate])) =
        Inr \<lparr>content_text = batch_text (length [id_phys, id_surrogate])
                (successful (batch_results demo_service [id_phys, id_surrogate]))
                (failed (batch_results demo_service [id_phys, id_surrogate])),
              isError = False\<rparr>"
      using inst' by (rule conjunct1)
    have len: "length [id_phys, id_surrogate] = 2"
      by simp
    have sf: "successful (batch_results demo_service [id_phys, id_surrogate]) =
        [\<lparr>b_id = id_phys, success = True,
        b_data = Some (mk_term id_phys (lit ''Abnormal nervous system physiology'')),
        b_error = None\<rparr>]"
      "failed (batch_results demo_service [id_phys, id_surrogate]) =
        [\<lparr>b_id = id_surrogate, success = False, b_data = None,
        b_error = Some (lit ''URI malformed'')\<rparr>]"
      by (simp_all add: batch_results_demo successful_def failed_def)
    show ?thesis
      using c1 by (simp only: len sf batch_text_demo)
  qed
  have q: "snd (batchGetHPOTerms demo_service (Some [id_phys, id_unknown, id_morph])) =
       [Request TermEP id_phys None None, Request TermEP id_unknown None None,
        Request TermEP id_morph None None]"
  proof -
    have "snd (batchGetHPOTerms demo_service (Some [id_phys, id_unknown, id_morph])) =
        concat (map (\<lambda>ident. if uri_malformed (formatHPOId ident) then []
                              else [Request TermEP (formatHPOId ident) None None])
                  [id_phys, id_unknown, id_morph])"
      using inst by blast
    then show ?thesis
      by simp
  qed
  have q': "snd (batchGetHPOTerms demo_service (Some [id_phys, id_surrogate])) =
       [Request TermEP id_phys None None]"
  proof -
    have "snd (batchGetHPOTerms demo_service (Some [id_phys, id_surrogate])) =
        concat (map (\<lambda>ident. if uri_malformed (formatHPOId ident) then []
                              else [Request TermEP (formatHPOId ident) None None])
                  [id_phys, id_surrogate])"
      using inst' by blast
    then show ?thesis
      by simp
  qed
  have s: "map b_id (successful (batch_results demo_service [id_phys, id_unknown, id_morph])) =
       [id_phys, id_morph]"
  proof -
    have "map b_id (successful (batch_results demo_service [id_phys, id_unknown, id_morph])) =
        filter (\<lambda>ident. error (fst (getTerm demo_service ident)) = None)
          [id_phys, id_unknown, id_morph]"
      using inst by blast
    then show ?thesis
      using a by simp
  qed
  have f: "map b_id (failed (batch_results demo_service [id_phys, id_unknown, id_morph])) = [id_unknown]"
  proof -
    have "map b_id (failed (batch_results demo_service [id_phys, id_unknown, id_morph])) =
        filter (\<lambda>ident. error (fst (getTerm demo_service ident)) \<noteq> None)
          [id_phys, id_unknown, id_morph]"
      using inst by blast
    then show ?thesis
      using a by simp
  qed
  have s': "map b_id (successful (batch_results demo_service [id_phys, id_surrogate])) = [id_phys]"
  proof -
    have "map b_id (successful (batch_results demo_service [id_phys, id_surrogate])) =
        filter (\<lambda>ident. error (fst (getTerm demo_service ident)) = None) [id_phys, id_surrogate]"
      using inst' by blast
    then show ?thesis
      using a by simp
  qed
  have f': "map b_id (failed (batch_results demo_service [id_phys, id_surrogate])) = [id_surrogate]"
  proof -
    have "map b_id (failed (batch_results demo_service [id_phys, id_surrogate])) =
        filter (\<lambda>ident. error (fst (getTerm demo_service ident)) \<noteq> None) [id_phys, id_surrogate]"
      using inst' by blast
    then show ?thesis
      using a by simp
  qed
  have e: "term_endpoint patchy_service (formatHPOId ([id_phys, id_unknown, id_morph] ! 1)) =
       term_endpoint demo_service (formatHPOId ([id_phys, id_unknown, id_morph] ! 1))"
    by (simp add: demo_service_def service_def patchy_answers)
  have k: "(1::nat) < length [id_phys, id_unknown, id_morph]"
    by simp
  have i: "batch_results patchy_service [id_phys, id_unknown, id_morph] ! 1 =
       batch_results demo_service [id_phys, id_unknown, id_morph] ! 1"
  proof -
    have "\<forall>k < length [id_phys, id_unknown, id_morph]. \<forall>r' :: Remote.
        term_endpoint r' (formatHPOId ([id_phys, id_unknown, id_morph] ! k)) =
          term_endpoint demo_service (formatHPOId ([id_phys, id_unknown, id_morph] ! k))
        \<longrightarrow> batch_results r' [id_phys, id_unknown, id_morph] ! k =
            batch_results demo_service [id_phys, id_unknown, id_morph] ! k"
      using inst by (elim conjE)
    then show ?thesis
      using e k by blast
  qed
  show ?thesis
    using h a(1-3) out q s f k e i h' a(4) out' q' s' f' by (intro conjI)
qed

text \<open>
  Claim C6. A list of more than twenty ids is answered with the message of the cap, and
  the empty list with the message that there is nothing to do; neither result is an
  error, and in both cases no request is sent.
\<close>

theorem batch_cap_and_empty:
  "(length ids > 20 \<longrightarrow>
      batchGetHPOTerms r (Some ids) =
        (Inr \<lparr>content_text = lit ''Maximum 20 terms can be processed at once'', isError = False\<rparr>, []))
   \<and> batchGetHPOTerms r (Some []) =
        (Inr \<lparr>content_text = lit ''No IDs provided'', isError = False\<rparr>, [])"
  by (auto simp: batchGetHPOTerms_def)

theorem batch_cap_and_empty_witness:
  "length (replicate 21 id_all) > 20
   \<and> batchGetHPOTerms demo_service (Some (replicate 21 id_all)) =
        (Inr \<lparr>content_text = lit ''Maximum 20 terms can be processed at once'', isError = False\<rparr>, [])
   \<and> batchGetHPOTerms demo_service (Some []) =
        (Inr \<lparr>content_text = lit ''No IDs provided'', isError = False\<rparr>, [])"
  using batch_cap_and_empty [of "replicate 21 id_all" demo_service]
  by simp

end
